theory Spec2Isabelle
  imports Complex_Main
begin

section \<open>JavaScript values\<close>

text \<open>
  Arguments and results of registered functions are dynamic JavaScript data. Finite
  numbers are rationals (rounding of doubles is not modelled); the three non-finite
  doubles are kept apart because the type checks of the registry test for them.
  Objects are association lists in property order and are trees: a cyclic object
  graph is outside this model.
\<close>

datatype jsnum = Fin rat | NaN | PosInf | NegInf

datatype jsval =
    JUndefined
  | JNull
  | JBool bool
  | JNum jsnum
  | JBigInt int
  | JStr string
  | JSymbol string
  | JFunction
  | JArr "jsval list"
  | JObj "(string \<times> jsval) list"

text \<open>An \<open>Error\<close> object, as far as the code reads it: \<open>error.name\<close> and \<open>error.message\<close>.\<close>

datatype js_error = JsError (ename: string) (emessage: string)

text \<open>What a handler can throw or reject with: an \<open>Error\<close>, or \<open>null\<close>.\<close>

datatype js_thrown = ThrownError js_error | ThrownNull

fun typeof :: "jsval \<Rightarrow> string" where
  "typeof JUndefined = ''undefined''"
| "typeof JNull = ''object''"
| "typeof (JBool b) = ''boolean''"
| "typeof (JNum n) = ''number''"
| "typeof (JBigInt i) = ''bigint''"
| "typeof (JStr s) = ''string''"
| "typeof (JSymbol d) = ''symbol''"
| "typeof JFunction = ''function''"
| "typeof (JArr xs) = ''object''"
| "typeof (JObj kvs) = ''object''"

definition digit :: "nat \<Rightarrow> char" where
  "digit n = ''0123456789'' ! (n mod 10)"

function decimal :: "nat \<Rightarrow> string" where
  "decimal n = (if n < 10 then [digit n] else decimal (n div 10) @ [digit n])"
  by pat_completeness auto
termination
  by (relation "measure (\<lambda>n. n)") auto

declare decimal.simps [simp del]

text \<open>A function-call request of the model: \<open>{name, arguments}\<close>, the arguments as JSON text.\<close>

record function_call =
  fc_name :: string
  fc_arguments :: "string option"

text \<open>
  Built-ins of the JavaScript runtime that the code calls and whose results are text or
  depend on the engine. They are parameters of the model.
  \<^item> \<open>String_of v\<close> is \<open>String(v)\<close>, also what a template literal inserts;
  \<^item> \<open>String_trim s\<close> is \<open>s.trim()\<close>, which strips the white space and line
    terminators of Unicode at both ends;
  \<^item> \<open>JSON_stringify2 v\<close> is \<open>JSON.stringify(v, null, 2)\<close> where that does not throw;
  \<^item> \<open>JSON_parse s\<close> is \<open>JSON.parse(s)\<close>, \<open>Inl\<close> the message of its \<open>SyntaxError\<close>;
  \<^item> \<open>RegExp_test p s\<close> is \<open>new RegExp(p).test(s)\<close>, \<open>Inl\<close> the message of the
    \<open>SyntaxError\<close> of an invalid pattern;
  \<^item> \<open>function_call_length c\<close> is \<open>JSON.stringify(c).length\<close> for a function-call request;
  \<^item> \<open>Object_prototype_keys\<close> and \<open>Array_prototype_keys\<close> are the property names that
    every plain object, respectively every array, inherits (the \<open>in\<close> operator sees them).
\<close>

record js =
  String_of :: "jsval \<Rightarrow> string"
  String_trim :: "string \<Rightarrow> string"
  JSON_stringify2 :: "jsval \<Rightarrow> string"
  JSON_parse :: "string \<Rightarrow> string + jsval"
  RegExp_test :: "string \<Rightarrow> string \<Rightarrow> string + bool"
  function_call_length :: "function_call \<Rightarrow> nat"
  Object_prototype_keys :: "string list"
  Array_prototype_keys :: "string list"

fun indexed :: "nat \<Rightarrow> jsval list \<Rightarrow> (string \<times> jsval) list" where
  "indexed i [] = []"
| "indexed i (x # xs) = (decimal i, x) # indexed (Suc i) xs"

text \<open>\<open>Object.entries(v)\<close> for a value with \<open>typeof v = 'object'\<close> that is not \<open>null\<close>.\<close>

fun entries :: "jsval \<Rightarrow> (string \<times> jsval) list" where
  "entries (JObj kvs) = kvs"
| "entries (JArr xs) = indexed 0 xs"
| "entries v = []"

text \<open>\<open>k in v\<close>: own properties and inherited ones.\<close>

fun has_property :: "js \<Rightarrow> string \<Rightarrow> jsval \<Rightarrow> bool" where
  "has_property p k (JObj kvs) = (k \<in> set (map fst kvs) \<or> k \<in> set (Object_prototype_keys p))"
| "has_property p k (JArr xs) =
     (k \<in> set (map fst (indexed 0 xs)) \<or> k = ''length''
      \<or> k \<in> set (Array_prototype_keys p) \<or> k \<in> set (Object_prototype_keys p))"
| "has_property p k v = False"

fun join :: "string \<Rightarrow> string list \<Rightarrow> string" where
  "join sep [] = []"
| "join sep [x] = x"
| "join sep (x # y # ys) = x @ sep @ join sep (y # ys)"

text \<open>What \<open>Array.prototype.join\<close> writes for one element.\<close>

definition join_item :: "js \<Rightarrow> jsval \<Rightarrow> string" where
  "join_item p v = (if v = JNull \<or> v = JUndefined then [] else String_of p v)"

text \<open>
  \<open>Array.prototype.includes\<close> compares with SameValueZero: primitives by value, objects,
  arrays, functions and symbols by identity. A value that was just parsed or passed in is
  never identical to an entry of a schema, so only primitives can be found.
\<close>

fun is_primitive :: "jsval \<Rightarrow> bool" where
  "is_primitive (JArr xs) = False"
| "is_primitive (JObj kvs) = False"
| "is_primitive JFunction = False"
| "is_primitive (JSymbol d) = False"
| "is_primitive v = True"

definition array_includes :: "jsval list \<Rightarrow> jsval \<Rightarrow> bool" where
  "array_includes xs v = (is_primitive v \<and> v \<in> set xs)"

section \<open>Function registry\<close>

subsection \<open>Schemas, handlers and records\<close>

text \<open>
  Schemas are modelled at their documented types; an absent field is \<open>None\<close>.
  \<open>param_schema\<close> is the schema of one property.
\<close>

record param_schema =
  ptype :: "string option"
  minLength :: "rat option"
  maxLength :: "rat option"
  pattern :: "string option"
  minimum :: "rat option"
  maximum :: "rat option"
  minItems :: "rat option"
  maxItems :: "rat option"
  enum :: "jsval list option"

record parameters =
  params_type :: "string option"
  properties :: "(string \<times> param_schema) list option"
  required :: "string list option"
  additionalProperties :: "bool option"

record function_schema =
  schema_name :: "string option"
  description :: "string option"
  schema_parameters :: "parameters option"

text \<open>
  A handler is a function of the arguments. What it does is one of: return a value that
  is not a promise, throw, return a promise that fulfils or rejects after so many
  milliseconds, or return a promise that never settles.
\<close>

datatype handler_outcome =
    Returns jsval
  | Throws js_thrown
  | Resolves nat jsval
  | Rejects nat js_thrown
  | Pending

type_synonym handler = "jsval \<Rightarrow> handler_outcome"

datatype handler_val = Callable handler | NotCallable

record function_data =
  fd_schema :: function_schema
  fd_handler :: handler
  fd_name :: string

text \<open>\<open>this.functions\<close>: a \<open>Map\<close>, which keeps insertion order.\<close>

record function_registry =
  functionMap :: "(string \<times> function_data) list"

fun map_set :: "'k \<Rightarrow> 'v \<Rightarrow> ('k \<times> 'v) list \<Rightarrow> ('k \<times> 'v) list" where
  "map_set k v [] = [(k, v)]"
| "map_set k v ((k', v') # m) = (if k' = k then (k, v) # m else (k', v') # map_set k v m)"

definition map_delete :: "'k \<Rightarrow> ('k \<times> 'v) list \<Rightarrow> ('k \<times> 'v) list" where
  "map_delete k m = filter (\<lambda>kv. fst kv \<noteq> k) m"

definition truthy :: "string option \<Rightarrow> bool" where
  "truthy s = (case s of None \<Rightarrow> False | Some t \<Rightarrow> t \<noteq> [])"

subsection \<open>Registration\<close>

text \<open>
  \<open>validateSchema\<close>. Its \<open>typeof\<close> and \<open>Array.isArray\<close> tests of \<open>parameters\<close>,
  \<open>properties\<close> and \<open>required\<close> hold by the types of the record fields.
\<close>

definition validateSchema :: "function_schema \<Rightarrow> bool" where
  "validateSchema schema =
     (if \<not> truthy (schema_name schema) then False
      else if \<not> truthy (description schema) then False
      else (case schema_parameters schema of
              None \<Rightarrow> True
            | Some ps \<Rightarrow>
                if truthy (params_type ps) \<and> params_type ps \<noteq> Some ''object'' then False
                else True))"

definition registerFunction ::
  "function_registry \<Rightarrow> string \<Rightarrow> function_schema \<Rightarrow> handler_val \<Rightarrow> string + function_registry"
where
  "registerFunction reg name schema h =
     (if name = [] then Inl ''Function name must be a non-empty string''
      else if \<not> validateSchema schema then Inl ''Invalid function schema''
      else (case h of
              NotCallable \<Rightarrow> Inl ''Handler must be a function''
            | Callable f \<Rightarrow>
                Inr (reg\<lparr>functionMap :=
                  map_set name \<lparr>fd_schema = schema, fd_handler = f, fd_name = name\<rparr>
                    (functionMap reg)\<rparr>)))"

definition hasFunction :: "function_registry \<Rightarrow> string \<Rightarrow> bool" where
  "hasFunction reg name = (name \<in> set (map fst (functionMap reg)))"

definition unregisterFunction :: "function_registry \<Rightarrow> string \<Rightarrow> bool \<times> function_registry" where
  "unregisterFunction reg name =
     (hasFunction reg name, reg\<lparr>functionMap := map_delete name (functionMap reg)\<rparr>)"

definition getFunctionSchemas :: "function_registry \<Rightarrow> function_schema list" where
  "getFunctionSchemas reg = map (\<lambda>kv. fd_schema (snd kv)) (functionMap reg)"

definition getRegisteredFunctions :: "function_registry \<Rightarrow> string list" where
  "getRegisteredFunctions reg = map fst (functionMap reg)"

record schema_wrapper =
  wrapper_type :: string
  wrapper_function :: function_schema

text \<open>
  \<open>handlers[schema.name]\<close> is given as the lookup function \<open>handlers\<close>. A schema without
  a name is looked up and reported as \<open>undefined\<close>, and \<open>registerFunction(undefined, ...)\<close>
  fails on its first check. The loop stops at the first exception; the registrations
  made before it stay.
\<close>

fun registerBuiltInFunctions ::
  "function_registry \<Rightarrow> schema_wrapper list \<Rightarrow> (string \<Rightarrow> handler_val option)
     \<Rightarrow> string option \<times> function_registry"
where
  "registerBuiltInFunctions reg [] handlers = (None, reg)"
| "registerBuiltInFunctions reg (schemaWrapper # schemas) handlers =
     (let schema = wrapper_function schemaWrapper;
          shown = (case schema_name schema of None \<Rightarrow> ''undefined'' | Some n \<Rightarrow> n)
      in case handlers shown of
           None \<Rightarrow> (Some (''No handler found for function: '' @ shown), reg)
         | Some h \<Rightarrow>
             (case schema_name schema of
                None \<Rightarrow> (Some ''Function name must be a non-empty string'', reg)
              | Some n \<Rightarrow>
                  (case registerFunction reg n schema h of
                     Inl e \<Rightarrow> (Some e, reg)
                   | Inr reg' \<Rightarrow> registerBuiltInFunctions reg' schemas handlers)))"

subsection \<open>Argument validation\<close>

record validation =
  isValid :: bool
  verror :: "string option"

definition valid :: validation where
  "valid = \<lparr>isValid = True, verror = None\<rparr>"

definition invalid :: "string \<Rightarrow> validation" where
  "invalid msg = \<lparr>isValid = False, verror = Some msg\<rparr>"

definition isInteger :: "rat \<Rightarrow> bool" where
  "isInteger q = (of_int \<lfloor>q\<rfloor> = q)"

definition validateParameterType :: "jsval \<Rightarrow> string \<Rightarrow> bool" where
  "validateParameterType v expectedType =
     (if v = JNull then expectedType = ''null''
      else if expectedType = ''string'' then typeof v = ''string''
      else if expectedType = ''number'' then (case v of JNum (Fin q) \<Rightarrow> True | _ \<Rightarrow> False)
      else if expectedType = ''integer'' then (case v of JNum (Fin q) \<Rightarrow> isInteger q | _ \<Rightarrow> False)
      else if expectedType = ''boolean'' then typeof v = ''boolean''
      else if expectedType = ''array'' then (case v of JArr xs \<Rightarrow> True | _ \<Rightarrow> False)
      else if expectedType = ''object'' then (case v of JObj kvs \<Rightarrow> True | _ \<Rightarrow> False)
      else if expectedType = ''null'' then False
      else True)"

text \<open>
  \<open>value.length\<close> and the numeric value, where the value has one. The constraint checks
  run only after the type check of the same schema has passed, so a string constraint
  meets a string, a numeric one a finite number and an array one an array; on anything
  else the comparisons below are false.
\<close>

fun length_of :: "jsval \<Rightarrow> rat option" where
  "length_of (JStr s) = Some (of_nat (length s))"
| "length_of (JArr xs) = Some (of_nat (length xs))"
| "length_of v = None"

fun number_of :: "jsval \<Rightarrow> rat option" where
  "number_of (JNum (Fin q)) = Some q"
| "number_of v = None"

text \<open>\<open>bound !== undefined && x < bound\<close>, and the same with the bound below \<open>x\<close>.\<close>

definition below :: "rat option \<Rightarrow> rat option \<Rightarrow> bool" where
  "below x bound = (case (x, bound) of (Some a, Some b) \<Rightarrow> a < b | _ \<Rightarrow> False)"

definition above :: "rat option \<Rightarrow> rat option \<Rightarrow> bool" where
  "above x bound = (case (x, bound) of (Some a, Some b) \<Rightarrow> a > b | _ \<Rightarrow> False)"

definition show_bound :: "js \<Rightarrow> rat option \<Rightarrow> string" where
  "show_bound p b = (case b of None \<Rightarrow> ''undefined'' | Some q \<Rightarrow> String_of p (JNum (Fin q)))"

text \<open>The number, array and enum blocks of \<open>validateParameterConstraints\<close>.\<close>

definition otherConstraints :: "js \<Rightarrow> jsval \<Rightarrow> param_schema \<Rightarrow> string \<Rightarrow> validation" where
  "otherConstraints p v schema paramName =
     (let numeric = (ptype schema = Some ''number'' \<or> ptype schema = Some ''integer'');
          array = (ptype schema = Some ''array'')
      in if numeric \<and> below (number_of v) (minimum schema) then
           invalid (''Parameter '' @ [CHR 0x27] @ paramName @ [CHR 0x27] @ '' must be at least ''
             @ show_bound p (minimum schema))
         else if numeric \<and> above (number_of v) (maximum schema) then
           invalid (''Parameter '' @ [CHR 0x27] @ paramName @ [CHR 0x27] @ '' must be at most ''
             @ show_bound p (maximum schema))
         else if array \<and> below (length_of v) (minItems schema) then
           invalid (''Parameter '' @ [CHR 0x27] @ paramName @ [CHR 0x27] @ '' must have at least ''
             @ show_bound p (minItems schema) @ '' items'')
         else if array \<and> above (length_of v) (maxItems schema) then
           invalid (''Parameter '' @ [CHR 0x27] @ paramName @ [CHR 0x27] @ '' must have at most ''
             @ show_bound p (maxItems schema) @ '' items'')
         else (case enum schema of
                 None \<Rightarrow> valid
               | Some allowed \<Rightarrow>
                   if \<not> array_includes allowed v then
                     invalid (''Parameter '' @ [CHR 0x27] @ paramName @ [CHR 0x27]
                       @ '' must be one of: '' @ join '', '' (map (join_item p) allowed))
                   else valid))"

definition validateParameterConstraints ::
  "js \<Rightarrow> jsval \<Rightarrow> param_schema \<Rightarrow> string \<Rightarrow> js_error + validation"
where
  "validateParameterConstraints p v schema paramName =
     (if ptype schema = Some ''string'' then
        (if below (length_of v) (minLength schema) then
           Inr (invalid (''Parameter '' @ [CHR 0x27] @ paramName @ [CHR 0x27]
             @ '' must be at least '' @ show_bound p (minLength schema) @ '' characters long''))
         else if above (length_of v) (maxLength schema) then
           Inr (invalid (''Parameter '' @ [CHR 0x27] @ paramName @ [CHR 0x27]
             @ '' must be at most '' @ show_bound p (maxLength schema) @ '' characters long''))
         else if truthy (pattern schema) then
           (case RegExp_test p (the (pattern schema))
                   (case v of JStr s \<Rightarrow> s | _ \<Rightarrow> String_of p v) of
              Inl msg \<Rightarrow> Inl (JsError ''SyntaxError'' msg)
            | Inr matches \<Rightarrow>
                if \<not> matches then
                  Inr (invalid (''Parameter '' @ [CHR 0x27] @ paramName @ [CHR 0x27]
                    @ '' does not match required pattern''))
                else Inr (otherConstraints p v schema paramName))
         else Inr (otherConstraints p v schema paramName))
      else Inr (otherConstraints p v schema paramName))"

text \<open>The first name of the \<open>required\<close> list for which \<open>name in args\<close> is false.\<close>

fun firstMissing :: "js \<Rightarrow> jsval \<Rightarrow> string list \<Rightarrow> string option" where
  "firstMissing p args [] = None"
| "firstMissing p args (requiredParam # rest) =
     (if \<not> has_property p requiredParam args then Some requiredParam
      else firstMissing p args rest)"

text \<open>
  The loop over \<open>Object.entries(args)\<close>. The lookup \<open>parameters.properties[paramName]\<close>
  is modelled on own properties: an inherited one has no \<open>type\<close>, \<open>enum\<close> or other
  constraint field, so it passes every check as an absent one does.
\<close>

fun validateEntries ::
  "js \<Rightarrow> (string \<times> param_schema) list \<Rightarrow> (string \<times> jsval) list \<Rightarrow> js_error + validation"
where
  "validateEntries p props [] = Inr valid"
| "validateEntries p props ((paramName, paramValue) # rest) =
     (case map_of props paramName of
        None \<Rightarrow> validateEntries p props rest
      | Some paramSchema \<Rightarrow>
          if truthy (ptype paramSchema)
             \<and> \<not> validateParameterType paramValue (the (ptype paramSchema)) then
            Inr (invalid (''Invalid type for parameter '' @ [CHR 0x27] @ paramName @ [CHR 0x27]
              @ '': expected '' @ the (ptype paramSchema) @ '', got '' @ typeof paramValue))
          else
            (case validateParameterConstraints p paramValue paramSchema paramName of
               Inl e \<Rightarrow> Inl e
             | Inr additionalValidation \<Rightarrow>
                 if \<not> isValid additionalValidation then Inr additionalValidation
                 else validateEntries p props rest))"

definition validateArguments :: "js \<Rightarrow> jsval \<Rightarrow> parameters \<Rightarrow> js_error + validation" where
  "validateArguments p args ps =
     (case properties ps of
        None \<Rightarrow> Inr valid
      | Some props \<Rightarrow>
          if typeof args \<noteq> ''object'' \<or> args = JNull then
            Inr (invalid ''Arguments must be an object'')
          else
            (case firstMissing p args (case required ps of None \<Rightarrow> [] | Some rs \<Rightarrow> rs) of
               Some requiredParam \<Rightarrow>
                 Inr (invalid (''Missing required parameter: '' @ requiredParam))
             | None \<Rightarrow>
                 (case validateEntries p props (entries args) of
                    Inl e \<Rightarrow> Inl e
                  | Inr r \<Rightarrow>
                      if \<not> isValid r then Inr r
                      else if additionalProperties ps = Some False then
                        (let allowedParams = map fst props;
                             providedParams = map fst (entries args);
                             unexpectedParams =
                               filter (\<lambda>param. param \<notin> set allowedParams) providedParams
                         in if length unexpectedParams > 0 then
                              Inr (invalid (''Unexpected parameters: ''
                                @ join '', '' unexpectedParams))
                            else Inr valid)
                      else Inr valid)))"

subsection \<open>Execution under the timeout race\<close>

text \<open>
  Time is a clock in milliseconds. It moves only while the code waits on a timer: the
  race of \<open>executeFunction\<close> and the back-off sleep of the completion client. Each
  registry operation takes the time of the call and returns the time it took.
\<close>

record exec_error =
  err_message :: string
  err_type :: string
  err_timestamp :: nat
  err_functionName :: "string option"
  err_originalError :: "string option"
  err_executionTime :: "nat option"

record exec_result =
  success :: bool
  result :: jsval
  functionName :: "string option"
  timestamp :: "nat option"
  error :: "exec_error option"
  executionTime :: "nat option"
  timeout :: "nat option"

definition formatSuccess :: "nat \<Rightarrow> jsval \<Rightarrow> string \<Rightarrow> exec_result" where
  "formatSuccess now r fname =
     \<lparr>success = True, result = r, functionName = Some fname, timestamp = Some now,
      error = None, executionTime = None, timeout = None\<rparr>"

text \<open>The three optional arguments are the keys the callers put into \<open>metadata\<close>.\<close>

definition formatError ::
  "nat \<Rightarrow> string \<Rightarrow> string \<Rightarrow> string option \<Rightarrow> string option \<Rightarrow> nat option \<Rightarrow> exec_result"
where
  "formatError now msg errorType md_functionName md_originalError md_executionTime =
     \<lparr>success = False, result = JNull, functionName = None, timestamp = None,
      error = Some \<lparr>err_message = msg, err_type = errorType, err_timestamp = now,
                    err_functionName = md_functionName, err_originalError = md_originalError,
                    err_executionTime = md_executionTime\<rparr>,
      executionTime = None, timeout = None\<rparr>"

definition timeoutMs :: nat where
  "timeoutMs = 5000"

definition timeoutRejection :: "nat \<Rightarrow> js_thrown" where
  "timeoutRejection ms =
     ThrownError (JsError ''Error'' (''Function execution timeout after '' @ decimal ms @ ''ms''))"

text \<open>
  \<open>await Promise.race([executionPromise, timeoutPromise])\<close> with a timer of \<open>ms\<close>
  milliseconds: how the race settles and after how long. The timer is set before the
  handler is called, so a handler that settles exactly at \<open>ms\<close> has lost. A synchronous
  throw of the handler leaves the \<open>try\<close> block before the race is awaited.
\<close>

fun race :: "handler_outcome \<Rightarrow> nat \<Rightarrow> (js_thrown + jsval) \<times> nat" where
  "race (Returns v) ms = (Inr v, 0)"
| "race (Throws e) ms = (Inl e, 0)"
| "race (Resolves t v) ms = (if t < ms then (Inr v, t) else (Inl (timeoutRejection ms), ms))"
| "race (Rejects t e) ms = (if t < ms then (Inl e, t) else (Inl (timeoutRejection ms), ms))"
| "race Pending ms = (Inl (timeoutRejection ms), ms)"

definition nullMessageTypeError :: js_error where
  "nullMessageTypeError =
     JsError ''TypeError''
       (''Cannot read properties of null (reading '' @ [CHR 0x27] @ ''message'' @ [CHR 0x27] @ '')'')"

text \<open>
  The \<open>catch\<close> block of \<open>executeFunction\<close>. Reading \<open>error.message\<close> of a thrown \<open>null\<close>
  throws in turn, and that \<open>TypeError\<close> leaves \<open>executeFunction\<close>.
\<close>

definition caught :: "nat \<Rightarrow> js_thrown \<Rightarrow> string \<Rightarrow> js_error + exec_result" where
  "caught now thrown fname =
     (case thrown of
        ThrownNull \<Rightarrow> Inl nullMessageTypeError
      | ThrownError e \<Rightarrow>
          Inr (formatError now (''Function execution failed: '' @ emessage e) ''EXECUTION_ERROR''
                 (Some fname) (Some (ename e)) None))"

text \<open>The default parameter \<open>args = {}\<close>: it replaces \<open>undefined\<close> only.\<close>

definition defaultArgs :: "jsval \<Rightarrow> jsval" where
  "defaultArgs args = (if args = JUndefined then JObj [] else args)"

text \<open>
  The result is what \<open>executeFunction\<close> returns or throws, the milliseconds it took, and
  the arguments of every call of the handler it made (none or one).
\<close>

definition executeFunction ::
  "js \<Rightarrow> function_registry \<Rightarrow> nat \<Rightarrow> string \<Rightarrow> jsval
     \<Rightarrow> (js_error + exec_result) \<times> nat \<times> jsval list"
where
  "executeFunction p reg now fname args0 =
     (let args = defaultArgs args0 in
      case map_of (functionMap reg) fname of
        None \<Rightarrow>
          (Inr (formatError now (''Function '' @ [CHR 0x27] @ fname @ [CHR 0x27] @ '' not found'')
                  ''FUNCTION_NOT_FOUND'' None None None), 0, [])
      | Some functionData \<Rightarrow>
          (case (case schema_parameters (fd_schema functionData) of
                   None \<Rightarrow> Inr valid
                 | Some ps \<Rightarrow> validateArguments p args ps) of
             Inl e \<Rightarrow> (caught now (ThrownError e) fname, 0, [])
           | Inr validationResult \<Rightarrow>
               if \<not> isValid validationResult then
                 (Inr (formatError now
                         (case verror validationResult of None \<Rightarrow> ''null'' | Some m \<Rightarrow> m)
                         ''VALIDATION_ERROR'' None None None), 0, [])
               else
                 (case race (fd_handler functionData args) timeoutMs of
                    (Inr r, t) \<Rightarrow> (Inr (formatSuccess (now + t) r fname), t, [args])
                  | (Inl thrown, t) \<Rightarrow> (caught (now + t) thrown fname, t, [args]))))"

subsection \<open>Sanitizing results\<close>

text \<open>
  \<open>JSON.stringify(v)\<close> throws on a \<open>BigInt\<close> that it reaches (and on a cycle, which a
  \<open>jsval\<close> cannot have). It does not throw on a function, on \<open>undefined\<close> or on a symbol:
  it leaves them out, or writes \<open>null\<close> inside an array.
\<close>

fun stringifyThrows :: "jsval \<Rightarrow> bool"
  and stringifyThrowsList :: "jsval list \<Rightarrow> bool"
  and stringifyThrowsProps :: "(string \<times> jsval) list \<Rightarrow> bool"
where
  "stringifyThrows (JBigInt i) = True"
| "stringifyThrows (JArr xs) = stringifyThrowsList xs"
| "stringifyThrows (JObj kvs) = stringifyThrowsProps kvs"
| "stringifyThrows JUndefined = False"
| "stringifyThrows JNull = False"
| "stringifyThrows (JBool b) = False"
| "stringifyThrows (JNum n) = False"
| "stringifyThrows (JStr s) = False"
| "stringifyThrows (JSymbol d) = False"
| "stringifyThrows JFunction = False"
| "stringifyThrowsList [] = False"
| "stringifyThrowsList (x # xs) = (stringifyThrows x \<or> stringifyThrowsList xs)"
| "stringifyThrowsProps [] = False"
| "stringifyThrowsProps (kv # kvs) = (stringifyThrows (snd kv) \<or> stringifyThrowsProps kvs)"

text \<open>
  \<open>sanitizeResult\<close>: the value itself when \<open>JSON.stringify\<close> does not throw, else the
  \<open>catch\<close> block. \<open>sanitizeProps\<close> and \<open>sanitizeElems\<close> are the \<open>reduce\<close> over
  \<open>Object.getOwnPropertyNames\<close> of an object and of an array (whose names are its indices
  and \<open>length\<close>). A string has its indices and \<open>length\<close> as own properties, the other
  primitives none, and \<open>null\<close> makes \<open>getOwnPropertyNames\<close> throw, which the last
  \<open>catch\<close> turns into \<open>String(result)\<close>.
\<close>

fun sanitizeResult :: "jsval \<Rightarrow> jsval"
  and sanitizeProps :: "(string \<times> jsval) list \<Rightarrow> (string \<times> jsval) list"
  and sanitizeElems :: "nat \<Rightarrow> jsval list \<Rightarrow> (string \<times> jsval) list"
where
  "sanitizeResult v =
     (if \<not> stringifyThrows v then v
      else (case v of
              JFunction \<Rightarrow> JStr ''[Function]''
            | JUndefined \<Rightarrow> JNull
            | JSymbol d \<Rightarrow> JStr (''Symbol('' @ d @ '')'')
            | JObj kvs \<Rightarrow> JObj (sanitizeProps kvs)
            | JArr xs \<Rightarrow>
                JObj (sanitizeElems 0 xs @ [(''length'', JNum (Fin (of_nat (length xs))))])
            | JStr s \<Rightarrow>
                JObj (indexed 0 (map (\<lambda>c. JStr [c]) s)
                        @ [(''length'', JNum (Fin (of_nat (length s))))])
            | JNull \<Rightarrow> JStr ''null''
            | JBool b \<Rightarrow> JObj []
            | JNum n \<Rightarrow> JObj []
            | JBigInt i \<Rightarrow> JObj []))"
| "sanitizeProps [] = []"
| "sanitizeProps (kv # kvs) =
     (if typeof (snd kv) \<noteq> ''function'' then (fst kv, sanitizeResult (snd kv)) # sanitizeProps kvs
      else sanitizeProps kvs)"
| "sanitizeElems i [] = []"
| "sanitizeElems i (x # xs) =
     (if typeof x \<noteq> ''function'' then (decimal i, sanitizeResult x) # sanitizeElems (Suc i) xs
      else sanitizeElems (Suc i) xs)"

subsection \<open>Safe execution\<close>

record exec_options =
  opt_timeout :: "nat option"
  opt_sanitizeResults :: "bool option"

definition executeFunctionSafely ::
  "js \<Rightarrow> function_registry \<Rightarrow> nat \<Rightarrow> string \<Rightarrow> jsval \<Rightarrow> exec_options
     \<Rightarrow> exec_result \<times> nat \<times> jsval list"
where
  "executeFunctionSafely p reg now fname args options =
     (let timeout_opt = (case opt_timeout options of None \<Rightarrow> 5000 | Some t \<Rightarrow> t);
          sanitizeResults = (case opt_sanitizeResults options of None \<Rightarrow> True | Some b \<Rightarrow> b);
          startTime = now
      in case executeFunction p reg now fname args of
           (Inr r, t, calls) \<Rightarrow>
             (let r1 = (if success r \<and> sanitizeResults
                        then r\<lparr>result := sanitizeResult (result r)\<rparr> else r)
              in (r1\<lparr>executionTime := Some ((now + t) - startTime),
                     timeout := Some timeout_opt\<rparr>, t, calls))
         | (Inl e, t, calls) \<Rightarrow>
             (formatError (now + t)
                (''Unexpected error during function execution: '' @ emessage e)
                ''UNEXPECTED_ERROR'' (Some fname) (Some (ename e)) (Some ((now + t) - startTime)),
              t, calls))"

section \<open>Completion client\<close>

text \<open>
  The completion endpoint answers a request with a response or fails with an error that
  carries \<open>status\<close>, \<open>code\<close> and \<open>message\<close>, each possibly absent.
\<close>

record api_error =
  status :: "nat option"
  code :: "string option"
  api_error_message :: "string option"

record api_message =
  api_content :: "string option"
  api_function_call :: "function_call option"

record choice =
  choice_message :: api_message
  finish_reason :: string

record response =
  choices :: "choice list"
  response_usage :: nat
  response_model :: string

text \<open>
  What the code cannot decide is given from outside: \<open>endpoint n\<close> is the outcome of the
  \<open>n\<close>-th request sent to the endpoint, \<open>Math_random n\<close> the \<open>n\<close>-th value drawn from
  \<open>Math.random()\<close>. The request itself (model, temperature, token limit, advertised
  functions) only travels to the endpoint and is not modelled.
\<close>

record environment =
  endpoint :: "nat \<Rightarrow> api_error + response"
  Math_random :: "nat \<Rightarrow> rat"

text \<open>
  What changes outside the objects: the clock, how many requests were sent and random
  numbers drawn, the delays slept by the retry loop, and the handler calls made.
\<close>

record world =
  now :: nat
  requests :: nat
  randoms :: nat
  sleeps :: "rat list"
  handlerCalls :: "(string \<times> jsval) list"

record openai_client =
  client_initialized :: bool

definition isReady :: "openai_client \<Rightarrow> bool" where
  "isReady c = client_initialized c"

definition shouldNotRetry :: "api_error \<Rightarrow> bool" where
  "shouldNotRetry e =
     (if status e = Some 401 \<or> status e = Some 403 then True
      else if status e = Some 400 then True
      else if status e = Some 404 then True
      else False)"

text \<open>\<open>error.message || fallback\<close>\<close>

definition message_or :: "string option \<Rightarrow> string \<Rightarrow> string" where
  "message_or m fallback = (if truthy m then the m else fallback)"

text \<open>The message of the \<open>Error\<close> that \<open>_handleApiError\<close> builds.\<close>

definition handleApiError :: "api_error \<Rightarrow> string" where
  "handleApiError e =
     (if status e = Some 401 then
        ''Authentication failed: Invalid API key. Please check your OpenAI API key.'' @ [CHR 0x0A]
          @ ''You can find your API key at: https://platform.openai.com/api-keys''
      else if status e = Some 429 then
        ''Rate limit exceeded: Too many requests to OpenAI API. Please wait before making more requests.''
      else if status e = Some 400 then
        ''Bad request: '' @ message_or (api_error_message e) ''Invalid request parameters''
      else if status e = Some 403 then
        ''Access forbidden: Your API key may not have the required permissions or your account may have insufficient credits.''
      else if status e = Some 404 then
        ''Model not found: The specified model is not available. Please check the model name.''
      else if status e = Some 500 \<or> status e = Some 502 \<or> status e = Some 503 then
        ''OpenAI server error: The service is temporarily unavailable. Please try again later.''
      else if code e = Some ''ENOTFOUND'' \<or> code e = Some ''ECONNREFUSED''
              \<or> code e = Some ''ETIMEDOUT'' then
        ''Network error: Unable to connect to OpenAI API. Please check your internet connection.''
      else ''OpenAI API request failed: '' @ message_or (api_error_message e) ''Unknown error'')"

text \<open>\<open>_sleep(ms)\<close>: a timer of \<open>ms\<close> milliseconds, whose fraction the timer drops.\<close>

definition sleep :: "rat \<Rightarrow> world \<Rightarrow> world" where
  "sleep ms w = w\<lparr>now := now w + nat \<lfloor>ms\<rfloor>, sleeps := sleeps w @ [ms]\<rparr>"

definition undefinedStatusTypeError :: string where
  "undefinedStatusTypeError =
     ''Cannot read properties of undefined (reading '' @ [CHR 0x27] @ ''status'' @ [CHR 0x27] @ '')''"

text \<open>
  The loop of \<open>_executeWithRetry\<close> from \<open>attempt\<close> on. An exception is the message of its
  \<open>Error\<close>. The last line is the \<open>throw\<close> after the loop.
\<close>

function executeWithRetryFrom ::
  "environment \<Rightarrow> nat \<Rightarrow> nat \<Rightarrow> api_error option \<Rightarrow> world \<Rightarrow> (string + response) \<times> world"
where
  "executeWithRetryFrom orc maxRetries attempt lastError w =
     (if attempt \<le> maxRetries then
        (case endpoint orc (requests w) of
           Inr resp \<Rightarrow> (Inr resp, w\<lparr>requests := Suc (requests w)\<rparr>)
         | Inl e \<Rightarrow>
             (let w1 = w\<lparr>requests := Suc (requests w)\<rparr> in
              if shouldNotRetry e then (Inl (handleApiError e), w1)
              else if attempt = maxRetries then (Inl (handleApiError e), w1)
              else
                (let baseDelay = 2 ^ attempt * 1000;
                     jitter = Math_random orc (randoms w1) * 1000;
                     delay = baseDelay + jitter
                 in executeWithRetryFrom orc maxRetries (Suc attempt) (Some e)
                      (sleep delay (w1\<lparr>randoms := Suc (randoms w1)\<rparr>)))))
      else (case lastError of
              None \<Rightarrow> (Inl undefinedStatusTypeError, w)
            | Some e \<Rightarrow> (Inl (handleApiError e), w)))"
  by pat_completeness auto
termination
  by (relation "measure (\<lambda>(orc, maxRetries, attempt, lastError, w). Suc maxRetries - attempt)") auto

declare executeWithRetryFrom.simps [simp del]

definition executeWithRetry :: "environment \<Rightarrow> nat \<Rightarrow> world \<Rightarrow> (string + response) \<times> world" where
  "executeWithRetry orc maxRetries w = executeWithRetryFrom orc maxRetries 0 None w"

text \<open>
  The delay that the loop computes before its \<open>i\<close>-th retry, when it started at attempt
  \<open>a\<close> with \<open>r\<close> random numbers already drawn.
\<close>

abbreviation backoff :: "environment \<Rightarrow> nat \<Rightarrow> nat \<Rightarrow> nat \<Rightarrow> rat" where
  "backoff orc a r i \<equiv> 2 ^ (a + i) * 1000 + Math_random orc (r + i) * 1000"

section \<open>Chat manager\<close>

record message =
  role :: string
  content :: string
  msg_timestamp :: "nat option"
  function_call :: "function_call option"
  name :: "string option"

text \<open>
  \<open>createChatCompletion(messages, functions, options)\<close>: the checks before the request,
  then the request under the retry policy with the default of 3 retries.
\<close>

definition createChatCompletion ::
  "environment \<Rightarrow> openai_client \<Rightarrow> message list \<Rightarrow> world \<Rightarrow> (string + response) \<times> world"
where
  "createChatCompletion orc c messages w =
     (if \<not> client_initialized c then
        (Inl ''OpenAI client is not initialized. Call initialize() first.'', w)
      else if messages = [] then (Inl ''Messages must be a non-empty array'', w)
      else if list_ex (\<lambda>m. role m = [] \<or> content m = []) messages then
        (Inl ''Each message must have role and content properties'', w)
      else executeWithRetry orc 3 w)"

subsection \<open>Transcript\<close>

record chat_manager =
  openaiClient :: openai_client
  functionRegistry :: function_registry
  messageHistory :: "message list"
  maxHistoryLength :: nat
  maxTokensPerMessage :: nat
  systemMessage :: message

definition defaultSystemMessage :: message where
  "defaultSystemMessage =
     \<lparr>role = ''system'',
      content = ''You are a helpful AI assistant. You can use the available functions to help users with various tasks.'',
      msg_timestamp = None, function_call = None, name = None\<rparr>"

text \<open>The constructor.\<close>

definition newChatManager :: "openai_client \<Rightarrow> function_registry \<Rightarrow> chat_manager" where
  "newChatManager c reg =
     \<lparr>openaiClient = c, functionRegistry = reg, messageHistory = [defaultSystemMessage],
      maxHistoryLength = 20, maxTokensPerMessage = 4000, systemMessage = defaultSystemMessage\<rparr>"

text \<open>\<open>xs.slice(start)\<close>: a negative \<open>start\<close> counts from the end.\<close>

definition slice_from :: "int \<Rightarrow> 'a list \<Rightarrow> 'a list" where
  "slice_from start xs =
     (if start < 0 then drop (nat (int (length xs) + start)) xs else drop (nat start) xs)"

text \<open>
  \<open>trimHistory\<close>. Where it reads \<open>this.messageHistory[0]\<close> the transcript is longer than
  the limit, hence not empty.
\<close>

definition trimHistory :: "chat_manager \<Rightarrow> chat_manager" where
  "trimHistory cm =
     (if length (messageHistory cm) \<le> maxHistoryLength cm then cm
      else
        (let sysMessage = hd (messageHistory cm);
             recentMessages = slice_from (- int (maxHistoryLength cm) + 1) (messageHistory cm)
         in cm\<lparr>messageHistory := sysMessage # recentMessages\<rparr>))"

text \<open>The keys that the callers of \<open>addToHistory\<close> put into \<open>metadata\<close>.\<close>

record metadata =
  md_function_call :: "function_call option"
  md_name :: "string option"

definition noMetadata :: metadata where
  "noMetadata = \<lparr>md_function_call = None, md_name = None\<rparr>"

definition validRoles :: "string list" where
  "validRoles = [''user'', ''assistant'', ''system'', ''function'']"

text \<open>
  \<open>addToHistory\<close> at clock time \<open>t\<close>. The content is a JavaScript value because the
  code checks that it is a string. An exception is the message of its \<open>Error\<close>.
\<close>

definition addToHistory ::
  "nat \<Rightarrow> chat_manager \<Rightarrow> string \<Rightarrow> jsval \<Rightarrow> metadata \<Rightarrow> string + chat_manager"
where
  "addToHistory t cm r c md =
     (if r \<notin> set validRoles then
        Inl (''Invalid message role: '' @ r @ ''. Must be one of: '' @ join '', '' validRoles)
      else (case c of
              JStr text \<Rightarrow>
                Inr (trimHistory (cm\<lparr>messageHistory := messageHistory cm @
                  [\<lparr>role = r, content = text, msg_timestamp = Some t,
                    function_call = md_function_call md, name = md_name md\<rparr>]\<rparr>))
            | _ \<Rightarrow> Inl ''Message content must be a string''))"

definition getFormattedHistory :: "chat_manager \<Rightarrow> message list" where
  "getFormattedHistory cm =
     map (\<lambda>msg. \<lparr>role = role msg, content = content msg, msg_timestamp = None,
                 function_call = function_call msg,
                 name = (if role msg = ''function'' \<and> truthy (name msg) then name msg else None)\<rparr>)
       (messageHistory cm)"

definition ceil4 :: "nat \<Rightarrow> nat" where
  "ceil4 n = (n + 3) div 4"

fun estimateTokenCount :: "js \<Rightarrow> message list \<Rightarrow> nat" where
  "estimateTokenCount p [] = 0"
| "estimateTokenCount p (m # ms) =
     ceil4 (length (content m)) + 10
     + (case function_call m of None \<Rightarrow> 0 | Some c \<Rightarrow> ceil4 (function_call_length p c))
     + estimateTokenCount p ms"

text \<open>
  The loop of \<open>trimToTokenLimit\<close>, from the most recent message backwards; \<open>trimmed\<close>
  grows at its front (\<open>unshift\<close>).
\<close>

fun takeRecent :: "js \<Rightarrow> nat \<Rightarrow> nat \<Rightarrow> message list \<Rightarrow> message list \<Rightarrow> message list" where
  "takeRecent p maxTok currentTokens [] trimmed = trimmed"
| "takeRecent p maxTok currentTokens (m # earlier) trimmed =
     (let messageTokens = estimateTokenCount p [m] in
      if currentTokens + messageTokens \<le> maxTok
      then takeRecent p maxTok (currentTokens + messageTokens) earlier (m # trimmed)
      else trimmed)"

fun findIndex :: "('a \<Rightarrow> bool) \<Rightarrow> 'a list \<Rightarrow> nat option" where
  "findIndex P [] = None"
| "findIndex P (x # xs) =
     (if P x then Some 0 else (case findIndex P xs of None \<Rightarrow> None | Some i \<Rightarrow> Some (Suc i)))"

definition trimToTokenLimit :: "js \<Rightarrow> message list \<Rightarrow> nat \<Rightarrow> message list" where
  "trimToTokenLimit p messages maxTok =
     (if messages = [] then messages
      else
        (let sysMessage = find (\<lambda>msg. role msg = ''system'') messages;
             otherMessages = filter (\<lambda>msg. role msg \<noteq> ''system'') messages;
             currentTokens = (case sysMessage of None \<Rightarrow> 0 | Some sm \<Rightarrow> estimateTokenCount p [sm]);
             trimmedMessages =
               takeRecent p maxTok currentTokens (rev otherMessages)
                 (case sysMessage of None \<Rightarrow> [] | Some sm \<Rightarrow> [sm])
         in case sysMessage of
              None \<Rightarrow> trimmedMessages
            | Some sm \<Rightarrow>
                (case findIndex (\<lambda>msg. role msg = ''system'') trimmedMessages of
                   None \<Rightarrow> trimmedMessages
                 | Some systemIndex \<Rightarrow>
                     if systemIndex > 0
                     then (trimmedMessages ! systemIndex)
                            # (take systemIndex trimmedMessages @ drop (Suc systemIndex) trimmedMessages)
                     else trimmedMessages)))"

subsection \<open>Responses\<close>

record envelope_error =
  ee_type :: string
  ee_message :: string
  ee_functionName :: "string option"
  ee_timestamp :: nat

record envelope =
  env_success :: bool
  env_message :: string
  env_error :: "envelope_error option"
  requiresFunctionCall :: bool
  env_functionCall :: "function_call option"
  usage :: "nat option"
  model :: "string option"
  finishReason :: "string option"

definition bigIntTypeError :: string where
  "bigIntTypeError = ''Do not know how to serialize a BigInt''"

definition nullMessageTypeErrorText :: string where
  "nullMessageTypeErrorText = emessage nullMessageTypeError"

text \<open>\<open>formatFunctionResult\<close>; it throws where \<open>JSON.stringify\<close> does.\<close>

definition formatFunctionResult :: "js \<Rightarrow> exec_result \<Rightarrow> string \<Rightarrow> string + string" where
  "formatFunctionResult p functionResult fname =
     (if success functionResult then
        (let r = result functionResult in
         case r of
           JStr s \<Rightarrow> Inr s
         | _ \<Rightarrow>
             if typeof r = ''object'' \<and> r \<noteq> JNull then
               (if stringifyThrows r then Inl bigIntTypeError else Inr (JSON_stringify2 p r))
             else Inr (String_of p r))
      else (case error functionResult of
              None \<Rightarrow> Inl nullMessageTypeErrorText
            | Some e \<Rightarrow>
                Inr (''Error executing '' @ fname @ '': '' @ err_message e
                     @ '' (Type: '' @ err_type e @ '')'')))"

subsection \<open>The function-call protocol\<close>

definition undefinedMessageTypeError :: string where
  "undefinedMessageTypeError =
     ''Cannot read properties of undefined (reading '' @ [CHR 0x27] @ ''message'' @ [CHR 0x27] @ '')''"

definition successEnvelope :: "string \<Rightarrow> response \<Rightarrow> choice \<Rightarrow> envelope" where
  "successEnvelope assistantMessage resp ch =
     \<lparr>env_success = True, env_message = assistantMessage, env_error = None,
      requiresFunctionCall = False, env_functionCall = None,
      usage = Some (response_usage resp), model = Some (response_model resp),
      finishReason = Some (finish_reason ch)\<rparr>"

definition functionErrorEnvelope :: "nat \<Rightarrow> string \<Rightarrow> string \<Rightarrow> envelope" where
  "functionErrorEnvelope t msg fname =
     \<lparr>env_success = False,
      env_message = ''I encountered an error while executing the function: '' @ msg,
      env_error = Some \<lparr>ee_type = ''FUNCTION_EXECUTION_ERROR'', ee_message = msg,
                        ee_functionName = Some fname, ee_timestamp = t\<rparr>,
      requiresFunctionCall = False, env_functionCall = None,
      usage = None, model = None, finishReason = None\<rparr>"

definition callOptions :: exec_options where
  "callOptions = \<lparr>opt_timeout = Some 10000, opt_sanitizeResults = Some True\<rparr>"

text \<open>
  \<open>processOpenAIResponse\<close>, \<open>handleFunctionCall\<close> and \<open>getFinalResponseAfterFunction\<close> call
  each other for as long as the completions request functions, which the code does not
  bound. A result is an exception (the message of its \<open>Error\<close>) or a value, with the chat
  manager and the world as the call left them; \<open>None\<close> stands for a call that does not
  return.

  The three methods are first written with the method they call back,
  \<open>this.processOpenAIResponse\<close>, as the parameter \<open>recur\<close>.
\<close>

type_synonym 'a outcome = "((string + 'a) \<times> chat_manager \<times> world) option"

text \<open>\<open>try { return await call } catch (error) { throw new Error(prefix + error.message) }\<close>\<close>

definition rethrow :: "string \<Rightarrow> 'a outcome \<Rightarrow> 'a outcome" where
  "rethrow prefix res =
     (case res of
        None \<Rightarrow> None
      | Some (Inl e, cm, w) \<Rightarrow> Some (Inl (prefix @ e), cm, w)
      | Some (Inr r, cm, w) \<Rightarrow> Some (Inr r, cm, w))"

definition getFinalResponseAfterFunctionWith ::
  "(chat_manager \<Rightarrow> world \<Rightarrow> response \<Rightarrow> envelope outcome)
     \<Rightarrow> environment \<Rightarrow> chat_manager \<Rightarrow> world \<Rightarrow> envelope outcome"
where
  "getFinalResponseAfterFunctionWith recur orc cm w =
     (case createChatCompletion orc (openaiClient cm) (getFormattedHistory cm) w of
        (Inl e, w1) \<Rightarrow>
          Some (Inl (''Failed to get final response after function execution: '' @ e), cm, w1)
      | (Inr resp, w1) \<Rightarrow>
          rethrow ''Failed to get final response after function execution: '' (recur cm w1 resp))"

text \<open>The outer \<open>catch\<close> block of \<open>handleFunctionCall\<close>, entered with the message \<open>e\<close>.\<close>

definition handleFunctionCallCatch ::
  "(chat_manager \<Rightarrow> world \<Rightarrow> response \<Rightarrow> envelope outcome)
     \<Rightarrow> environment \<Rightarrow> chat_manager \<Rightarrow> world \<Rightarrow> function_call \<Rightarrow> string \<Rightarrow> envelope outcome"
where
  "handleFunctionCallCatch recur orc cm w fc e =
     (case addToHistory (now w) cm ''function'' (JStr (''Function execution failed: '' @ e))
             \<lparr>md_function_call = None, md_name = Some (fc_name fc)\<rparr> of
        Inl e' \<Rightarrow> Some (Inl e', cm, w)
      | Inr cm1 \<Rightarrow>
          (case getFinalResponseAfterFunctionWith recur orc cm1 w of
             None \<Rightarrow> None
           | Some (Inl finalError, cm2, w2) \<Rightarrow>
               Some (Inr (functionErrorEnvelope (now w2) e (fc_name fc)), cm2, w2)
           | Some (Inr r, cm2, w2) \<Rightarrow> Some (Inr r, cm2, w2)))"

text \<open>
  \<open>return await this.getFinalResponseAfterFunction()\<close> inside the \<open>try\<close> block: an
  exception of the call enters the \<open>catch\<close> block.
\<close>

definition finalResponseOrCatch ::
  "(chat_manager \<Rightarrow> world \<Rightarrow> response \<Rightarrow> envelope outcome)
     \<Rightarrow> environment \<Rightarrow> chat_manager \<Rightarrow> world \<Rightarrow> function_call \<Rightarrow> envelope outcome"
where
  "finalResponseOrCatch recur orc cm w fc =
     (case getFinalResponseAfterFunctionWith recur orc cm w of
        None \<Rightarrow> None
      | Some (Inl e, cm', w') \<Rightarrow> handleFunctionCallCatch recur orc cm' w' fc e
      | Some (Inr r, cm', w') \<Rightarrow> Some (Inr r, cm', w'))"

definition handleFunctionCallWith ::
  "(chat_manager \<Rightarrow> world \<Rightarrow> response \<Rightarrow> envelope outcome)
     \<Rightarrow> js \<Rightarrow> environment \<Rightarrow> chat_manager \<Rightarrow> world \<Rightarrow> function_call \<Rightarrow> envelope outcome"
where
  "handleFunctionCallWith recur p orc cm w fc =
     (case addToHistory (now w) cm ''assistant'' (JStr [])
             \<lparr>md_function_call = Some fc, md_name = None\<rparr> of
        Inl e \<Rightarrow> handleFunctionCallCatch recur orc cm w fc e
      | Inr cm1 \<Rightarrow>
          (case (if truthy (fc_arguments fc)
                 then JSON_parse p (the (fc_arguments fc)) else Inr (JObj [])) of
             Inl parseError \<Rightarrow>
               (case addToHistory (now w) cm1 ''function''
                       (JStr (''Failed to parse function arguments: '' @ parseError))
                       \<lparr>md_function_call = None, md_name = Some (fc_name fc)\<rparr> of
                  Inl e \<Rightarrow> handleFunctionCallCatch recur orc cm1 w fc e
                | Inr cm2 \<Rightarrow> finalResponseOrCatch recur orc cm2 w fc)
           | Inr functionArgs \<Rightarrow>
               (case executeFunctionSafely p (functionRegistry cm1) (now w)
                       (fc_name fc) functionArgs callOptions of
                  (functionResult, t, calls) \<Rightarrow>
                    (let w1 = w\<lparr>now := now w + t,
                                handlerCalls := handlerCalls w @ map (\<lambda>a. (fc_name fc, a)) calls\<rparr>
                     in case formatFunctionResult p functionResult (fc_name fc) of
                          Inl e \<Rightarrow> handleFunctionCallCatch recur orc cm1 w1 fc e
                        | Inr resultMessage \<Rightarrow>
                            (case addToHistory (now w1) cm1 ''function'' (JStr resultMessage)
                                    \<lparr>md_function_call = None, md_name = Some (fc_name fc)\<rparr> of
                               Inl e \<Rightarrow> handleFunctionCallCatch recur orc cm1 w1 fc e
                             | Inr cm2 \<Rightarrow> finalResponseOrCatch recur orc cm2 w1 fc)))))"

text \<open>
  The body of \<open>processOpenAIResponse\<close>. The success envelope is built after
  \<open>addToHistory\<close> has accepted \<open>message.content\<close>, which is then a string.
\<close>

definition processOpenAIResponseWith ::
  "(chat_manager \<Rightarrow> world \<Rightarrow> response \<Rightarrow> envelope outcome)
     \<Rightarrow> js \<Rightarrow> environment \<Rightarrow> chat_manager \<Rightarrow> world \<Rightarrow> response \<Rightarrow> envelope outcome"
where
  "processOpenAIResponseWith recur p orc cm w resp =
     (case choices resp of
        [] \<Rightarrow> Some (Inl (''Failed to process OpenAI response: '' @ undefinedMessageTypeError), cm, w)
      | ch # others \<Rightarrow>
          (case api_function_call (choice_message ch) of
             Some fc \<Rightarrow>
               rethrow ''Failed to process OpenAI response: ''
                 (handleFunctionCallWith recur p orc cm w fc)
           | None \<Rightarrow>
               (case addToHistory (now w) cm ''assistant''
                       (case api_content (choice_message ch) of None \<Rightarrow> JNull | Some c \<Rightarrow> JStr c)
                       noMetadata of
                  Inl e \<Rightarrow> Some (Inl (''Failed to process OpenAI response: '' @ e), cm, w)
                | Inr cm' \<Rightarrow>
                    Some (Inr (successEnvelope (the (api_content (choice_message ch))) resp ch),
                          cm', w))))"

text \<open>
  The recursion is closed with a bound on the number of nested \<open>processOpenAIResponse\<close>
  calls: \<open>processOpenAIResponse n\<close> is \<open>None\<close> when the run would nest deeper than \<open>n\<close>.
\<close>

primrec processOpenAIResponse ::
  "nat \<Rightarrow> js \<Rightarrow> environment \<Rightarrow> chat_manager \<Rightarrow> world \<Rightarrow> response \<Rightarrow> envelope outcome"
where
  "processOpenAIResponse 0 p orc cm w resp = None"
| "processOpenAIResponse (Suc n) p orc cm w resp =
     processOpenAIResponseWith (\<lambda>cm' w' resp'. processOpenAIResponse n p orc cm' w' resp')
       p orc cm w resp"

definition handleFunctionCall ::
  "nat \<Rightarrow> js \<Rightarrow> environment \<Rightarrow> chat_manager \<Rightarrow> world \<Rightarrow> function_call \<Rightarrow> envelope outcome"
where
  "handleFunctionCall n p orc cm w fc =
     handleFunctionCallWith (processOpenAIResponse n p orc) p orc cm w fc"

definition getFinalResponseAfterFunction ::
  "nat \<Rightarrow> js \<Rightarrow> environment \<Rightarrow> chat_manager \<Rightarrow> world \<Rightarrow> envelope outcome"
where
  "getFinalResponseAfterFunction n p orc cm w =
     getFinalResponseAfterFunctionWith (processOpenAIResponse n p orc) orc cm w"

subsection \<open>Processing a user message\<close>

record process_options =
  includeHistory :: "bool option"
  maxTokens :: "nat option"
  temperature :: "rat option"

definition noOptions :: process_options where
  "noOptions = \<lparr>includeHistory = None, maxTokens = None, temperature = None\<rparr>"

definition processingErrorEnvelope :: "nat \<Rightarrow> string \<Rightarrow> envelope" where
  "processingErrorEnvelope t msg =
     \<lparr>env_success = False, env_message = ''I encountered an error: '' @ msg,
      env_error = Some \<lparr>ee_type = ''PROCESSING_ERROR'', ee_message = msg,
                        ee_functionName = None, ee_timestamp = t\<rparr>,
      requiresFunctionCall = False, env_functionCall = None,
      usage = None, model = None, finishReason = None\<rparr>"

text \<open>The \<open>try\<close> block of \<open>processMessage\<close>.\<close>

definition processMessageTry ::
  "nat \<Rightarrow> js \<Rightarrow> environment \<Rightarrow> chat_manager \<Rightarrow> world \<Rightarrow> jsval \<Rightarrow> process_options
     \<Rightarrow> envelope outcome"
where
  "processMessageTry n p orc cm w userInput options =
     (case userInput of
        JStr s \<Rightarrow>
          if s = [] \<or> length (String_trim p s) = 0 then
            Some (Inl ''User input must be a non-empty string'', cm, w)
          else if \<not> isReady (openaiClient cm) then
            Some (Inl ''OpenAI client is not initialized'', cm, w)
          else
            (case addToHistory (now w) cm ''user'' (JStr (String_trim p s)) noMetadata of
               Inl e \<Rightarrow> Some (Inl e, cm, w)
             | Inr cm1 \<Rightarrow>
                 (let messages0 =
                        (if includeHistory options \<noteq> Some False then getFormattedHistory cm1
                         else [systemMessage cm1,
                               \<lparr>role = ''user'', content = String_trim p s, msg_timestamp = None,
                                function_call = None, name = None\<rparr>]);
                      messages =
                        (case maxTokens options of
                           None \<Rightarrow> messages0
                         | Some maxTok \<Rightarrow>
                             if maxTok \<noteq> 0 then trimToTokenLimit p messages0 maxTok
                             else messages0)
                  in case createChatCompletion orc (openaiClient cm1) messages w of
                       (Inl e, w1) \<Rightarrow> Some (Inl e, cm1, w1)
                     | (Inr resp, w1) \<Rightarrow> processOpenAIResponse n p orc cm1 w1 resp))
      | _ \<Rightarrow> Some (Inl ''User input must be a non-empty string'', cm, w))"

text \<open>\<open>processMessage\<close>: the \<open>try\<close> block, and the \<open>catch\<close> block on its exception.\<close>

definition processMessage ::
  "nat \<Rightarrow> js \<Rightarrow> environment \<Rightarrow> chat_manager \<Rightarrow> world \<Rightarrow> jsval \<Rightarrow> process_options
     \<Rightarrow> envelope outcome"
where
  "processMessage n p orc cm w userInput options =
     (case processMessageTry n p orc cm w userInput options of
        None \<Rightarrow> None
      | Some (Inr r, cm', w') \<Rightarrow> Some (Inr r, cm', w')
      | Some (Inl msg, cm', w') \<Rightarrow>
          (let errorResponse = processingErrorEnvelope (now w') msg in
           case addToHistory (now w') cm' ''assistant'' (JStr (env_message errorResponse))
                  noMetadata of
             Inl e \<Rightarrow> Some (Inl e, cm', w')
           | Inr cm'' \<Rightarrow> Some (Inr errorResponse, cm'', w')))"

text \<open>
  \<open>generateResponse\<close>: the copy \<open>[...this.messageHistory]\<close> holds the same message
  objects; no code reached from \<open>processMessage\<close> writes into a message object, so the
  copy is the list of messages as it was.
\<close>

definition generateResponse ::
  "nat \<Rightarrow> js \<Rightarrow> environment \<Rightarrow> chat_manager \<Rightarrow> world \<Rightarrow> jsval \<Rightarrow> process_options
     \<Rightarrow> envelope outcome"
where
  "generateResponse n p orc cm w userInput options =
     (let originalHistory = messageHistory cm in
      case processMessage n p orc cm w userInput options of
        None \<Rightarrow> None
      | Some (Inr r, cm', w') \<Rightarrow> Some (Inr r, cm'\<lparr>messageHistory := originalHistory\<rparr>, w')
      | Some (Inl e, cm', w') \<Rightarrow> Some (Inl e, cm'\<lparr>messageHistory := originalHistory\<rparr>, w'))"

subsection \<open>Sequences of calls\<close>

text \<open>
  \<open>addedTo cm cm'\<close>: the chat manager \<open>cm'\<close> is \<open>cm\<close> after one or more calls of
  \<open>addToHistory\<close> that returned, at any times and with any arguments.
\<close>

inductive addedTo :: "chat_manager \<Rightarrow> chat_manager \<Rightarrow> bool" where
  one: "addToHistory t cm r c md = Inr cm' \<Longrightarrow> addedTo cm cm'"
| more: "addedTo cm cm' \<Longrightarrow> addToHistory t cm' r c md = Inr cm'' \<Longrightarrow> addedTo cm cm''"

section \<open>Notions used in the statements\<close>

text \<open>Whether a handler's outcome is there before a timer of \<open>ms\<close> milliseconds fires.\<close>

fun settlesBefore :: "handler_outcome \<Rightarrow> nat \<Rightarrow> bool" where
  "settlesBefore (Returns v) ms = True"
| "settlesBefore (Throws e) ms = True"
| "settlesBefore (Resolves t v) ms = (t < ms)"
| "settlesBefore (Rejects t e) ms = (t < ms)"
| "settlesBefore Pending ms = False"

text \<open>The arguments pass the validation gate of \<open>executeFunction\<close> for this record.\<close>

definition argumentsAccepted :: "js \<Rightarrow> function_data \<Rightarrow> jsval \<Rightarrow> bool" where
  "argumentsAccepted p fd args =
     (case schema_parameters (fd_schema fd) of
        None \<Rightarrow> True
      | Some ps \<Rightarrow>
          (case validateArguments p (defaultArgs args) ps of
             Inl e \<Rightarrow> False
           | Inr v \<Rightarrow> isValid v))"

text \<open>
  A JSON value: what \<open>JSON.parse(JSON.stringify(v))\<close> gives back unchanged. It holds no
  \<open>undefined\<close>, function, symbol, \<open>BigInt\<close> or non-finite number.
\<close>

fun isJson :: "jsval \<Rightarrow> bool"
  and isJsonList :: "jsval list \<Rightarrow> bool"
  and isJsonProps :: "(string \<times> jsval) list \<Rightarrow> bool"
where
  "isJson JNull = True"
| "isJson (JBool b) = True"
| "isJson (JNum n) = (case n of Fin q \<Rightarrow> True | _ \<Rightarrow> False)"
| "isJson (JStr s) = True"
| "isJson (JArr xs) = isJsonList xs"
| "isJson (JObj kvs) = isJsonProps kvs"
| "isJson JUndefined = False"
| "isJson (JBigInt i) = False"
| "isJson (JSymbol d) = False"
| "isJson JFunction = False"
| "isJsonList [] = True"
| "isJsonList (x # xs) = (isJson x \<and> isJsonList xs)"
| "isJsonProps [] = True"
| "isJsonProps (kv # kvs) = (isJson (snd kv) \<and> isJsonProps kvs)"

text \<open>
  What it means for arguments to be correctly typed and within the declared
  constraints, said on the values and not through the validator. A value has a declared
  type when it is of the kind the type name stands for: \<open>string\<close>, \<open>number\<close> (a finite
  number), \<open>integer\<close> (a finite number without fraction), \<open>boolean\<close>, \<open>array\<close>, \<open>object\<close> (a
  plain object) or \<open>null\<close>. No value has a type of another name.
\<close>

fun ofDeclaredType :: "string \<Rightarrow> jsval \<Rightarrow> bool" where
  "ofDeclaredType t (JStr s) = (t = ''string'')"
| "ofDeclaredType t (JNum n) =
     (case n of Fin q \<Rightarrow> t = ''number'' \<or> (t = ''integer'' \<and> frac q = 0) | _ \<Rightarrow> False)"
| "ofDeclaredType t (JBool b) = (t = ''boolean'')"
| "ofDeclaredType t (JArr xs) = (t = ''array'')"
| "ofDeclaredType t (JObj kvs) = (t = ''object'')"
| "ofDeclaredType t JNull = (t = ''null'')"
| "ofDeclaredType t JUndefined = False"
| "ofDeclaredType t (JBigInt i) = False"
| "ofDeclaredType t (JSymbol d) = False"
| "ofDeclaredType t JFunction = False"

text \<open>A value is well typed for a property schema that declares no type or one it has.\<close>

definition wellTyped :: "jsval \<Rightarrow> param_schema \<Rightarrow> bool" where
  "wellTyped v sch = (case ptype sch of None \<Rightarrow> True | Some t \<Rightarrow> ofDeclaredType t v)"

definition inRange :: "rat \<Rightarrow> rat option \<Rightarrow> rat option \<Rightarrow> bool" where
  "inRange x lo hi =
     ((case lo of None \<Rightarrow> True | Some l \<Rightarrow> l \<le> x) \<and> (case hi of None \<Rightarrow> True | Some h \<Rightarrow> x \<le> h))"

text \<open>The values that an \<open>enum\<close> list can hold by value.\<close>

fun scalar :: "jsval \<Rightarrow> bool" where
  "scalar JUndefined = True"
| "scalar JNull = True"
| "scalar (JBool b) = True"
| "scalar (JNum n) = True"
| "scalar (JBigInt i) = True"
| "scalar (JStr s) = True"
| "scalar (JSymbol d) = False"
| "scalar JFunction = False"
| "scalar (JArr xs) = False"
| "scalar (JObj kvs) = False"

text \<open>
  A value meets the constraints of a property schema: a string of a \<open>string\<close> property
  has a length from \<open>minLength\<close> to \<open>maxLength\<close> and matches \<open>pattern\<close>; a number of a
  \<open>number\<close> or \<open>integer\<close> property lies from \<open>minimum\<close> to \<open>maximum\<close>; an array of an
  \<open>array\<close> property has from \<open>minItems\<close> to \<open>maxItems\<close> items; and the value is one of
  \<open>enum\<close>. An absent bound, pattern or list constrains nothing.
\<close>

definition meetsConstraints :: "js \<Rightarrow> jsval \<Rightarrow> param_schema \<Rightarrow> bool" where
  "meetsConstraints p v sch =
     ((case v of
         JStr s \<Rightarrow>
           ptype sch = Some ''string'' \<longrightarrow>
             inRange (of_nat (length s)) (minLength sch) (maxLength sch)
             \<and> (case pattern sch of
                  None \<Rightarrow> True
                | Some pat \<Rightarrow> pat = [] \<or> RegExp_test p pat s = Inr True)
       | JNum n \<Rightarrow>
           (case n of
              Fin q \<Rightarrow>
                ptype sch = Some ''number'' \<or> ptype sch = Some ''integer'' \<longrightarrow>
                  inRange q (minimum sch) (maximum sch)
            | _ \<Rightarrow> True)
       | JArr xs \<Rightarrow>
           ptype sch = Some ''array'' \<longrightarrow>
             inRange (of_nat (length xs)) (minItems sch) (maxItems sch)
       | _ \<Rightarrow> True)
      \<and> (case enum sch of None \<Rightarrow> True | Some allowed \<Rightarrow> scalar v \<and> v \<in> set allowed))"

text \<open>The last \<open>j\<close> entries of a list, and a transcript with an empty content among them.\<close>

definition recent :: "nat \<Rightarrow> 'a list \<Rightarrow> 'a list" where
  "recent j xs = drop (length xs - j) xs"

definition hasEmptyContent :: "nat \<Rightarrow> chat_manager \<Rightarrow> bool" where
  "hasEmptyContent j cm = list_ex (\<lambda>m. content m = []) (recent j (messageHistory cm))"

text \<open>Every record of the registry is stored under the name its schema carries.\<close>

definition namesMatch :: "function_registry \<Rightarrow> bool" where
  "namesMatch reg =
     list_all (\<lambda>kv. schema_name (fd_schema (snd kv)) = Some (fst kv)) (functionMap reg)"

section \<open>Worked examples: a runtime, registries and conversations\<close>

text \<open>
  A runtime for the examples. Its text functions answer the inputs the examples use,
  which are ASCII: \<open>asciiTrim\<close> strips the six ASCII blanks, and \<open>escapedLength\<close> is the
  length of a string inside a JSON text. The inherited property names are those of the
  language standard.
\<close>

definition asciiTrim :: "string \<Rightarrow> string" where
  "asciiTrim s =
     (let blank = (\<lambda>c. c \<in> set [CHR 0x09, CHR 0x0A, CHR 0x0B, CHR 0x0C, CHR 0x0D, CHR 0x20])
      in rev (dropWhile blank (rev (dropWhile blank s))))"

fun escapedLength :: "string \<Rightarrow> nat" where
  "escapedLength [] = 0"
| "escapedLength (c # cs) =
     (if c \<in> set [CHR 0x22, CHR 0x5C, CHR 0x08, CHR 0x09, CHR 0x0A, CHR 0x0C, CHR 0x0D] then 2
      else if of_char c < (32 :: nat) then 6
      else 1) + escapedLength cs"

definition example_js :: js where
  "example_js =
     \<lparr>String_of = (\<lambda>v. case v of JStr s \<Rightarrow> s | _ \<Rightarrow> ''[object Object]''),
      String_trim = asciiTrim,
      JSON_stringify2 = (\<lambda>v. case v of JArr xs \<Rightarrow> ''[]'' | _ \<Rightarrow> ''{}''),
      JSON_parse = (\<lambda>s. if s = ''{}'' then Inr (JObj []) else Inl ''Unexpected end of JSON input''),
      RegExp_test = (\<lambda>pat s. Inr (pat = s)),
      function_call_length =
        (\<lambda>c. case fc_arguments c of
                None \<Rightarrow> 11 + escapedLength (fc_name c)
              | Some a \<Rightarrow> 26 + escapedLength (fc_name c) + escapedLength a),
      Object_prototype_keys =
        [''constructor'', ''__defineGetter__'', ''__defineSetter__'', ''hasOwnProperty'',
         ''__lookupGetter__'', ''__lookupSetter__'', ''isPrototypeOf'', ''propertyIsEnumerable'',
         ''toString'', ''valueOf'', ''__proto__'', ''toLocaleString''],
      Array_prototype_keys =
        [''length'', ''constructor'', ''at'', ''concat'', ''copyWithin'', ''fill'', ''find'',
         ''findIndex'', ''findLast'', ''findLastIndex'', ''lastIndexOf'', ''pop'', ''push'',
         ''reverse'', ''shift'', ''unshift'', ''slice'', ''sort'', ''splice'', ''includes'',
         ''indexOf'', ''join'', ''keys'', ''entries'', ''values'', ''forEach'', ''filter'',
         ''flat'', ''flatMap'', ''map'', ''every'', ''some'', ''reduce'', ''reduceRight'',
         ''toLocaleString'', ''toString'', ''toReversed'', ''toSorted'', ''toSpliced'', ''with'']\<rparr>"

definition emptyRegistry :: function_registry where
  "emptyRegistry = \<lparr>functionMap = []\<rparr>"

definition exampleSchema :: "string \<Rightarrow> parameters option \<Rightarrow> function_schema" where
  "exampleSchema n ps =
     \<lparr>schema_name = Some n, description = Some ''An example function'', schema_parameters = ps\<rparr>"

definition stringParam :: param_schema where
  "stringParam =
     \<lparr>ptype = Some ''string'', minLength = None, maxLength = None, pattern = None,
      minimum = None, maximum = None, minItems = None, maxItems = None, enum = None\<rparr>"

text \<open>The schema of the built-in \<open>getCurrentTime\<close>, and a handler that returns a time.\<close>

definition getCurrentTimeSchema :: function_schema where
  "getCurrentTimeSchema =
     \<lparr>schema_name = Some ''getCurrentTime'', description = Some ''Get the current date and time'',
      schema_parameters = Some \<lparr>params_type = Some ''object'', properties = Some [],
                                 required = None, additionalProperties = None\<rparr>\<rparr>"

definition getCurrentTime :: handler where
  "getCurrentTime args = Returns (JStr ''2025-11-07T12:00:00.000Z'')"

definition timeRegistry :: function_registry where
  "timeRegistry =
     \<lparr>functionMap = [(''getCurrentTime'',
        \<lparr>fd_schema = getCurrentTimeSchema, fd_handler = getCurrentTime,
         fd_name = ''getCurrentTime''\<rparr>)]\<rparr>"

text \<open>The schema of the built-in \<open>calculateMath\<close>, with handlers that answer and that throw.\<close>

definition calculateMathSchema :: function_schema where
  "calculateMathSchema =
     \<lparr>schema_name = Some ''calculateMath'', description = Some ''Calculate simple math expressions'',
      schema_parameters = Some \<lparr>params_type = Some ''object'',
                                 properties = Some [(''expression'', stringParam)],
                                 required = Some [''expression''],
                                 additionalProperties = None\<rparr>\<rparr>"

definition registryWith :: "string \<Rightarrow> function_schema \<Rightarrow> handler \<Rightarrow> function_registry" where
  "registryWith n schema h =
     \<lparr>functionMap = [(n, \<lparr>fd_schema = schema, fd_handler = h, fd_name = n\<rparr>)]\<rparr>"

text \<open>
  The schema of the built-in \<open>getCurrentWeather\<close>, with two required names, and a schema
  with bounds, an \<open>enum\<close> and \<open>additionalProperties: false\<close>.
\<close>

definition weatherSchema :: function_schema where
  "weatherSchema =
     \<lparr>schema_name = Some ''getCurrentWeather'',
      description = Some ''Get the current weather in a given location'',
      schema_parameters = Some \<lparr>params_type = Some ''object'',
                                 properties = Some [(''latitude'', stringParam),
                                                    (''longitude'', stringParam)],
                                 required = Some [''longitude'', ''latitude''],
                                 additionalProperties = None\<rparr>\<rparr>"

definition volumeSchema :: function_schema where
  "volumeSchema =
     exampleSchema ''setVolume''
       (Some \<lparr>params_type = Some ''object'',
              properties = Some
                [(''level'', \<lparr>ptype = Some ''integer'', minLength = None, maxLength = None,
                              pattern = None, minimum = Some 0, maximum = Some 10,
                              minItems = None, maxItems = None, enum = None\<rparr>),
                 (''mode'', \<lparr>ptype = Some ''string'', minLength = Some 1, maxLength = Some 8,
                             pattern = None, minimum = None, maximum = None,
                             minItems = None, maxItems = None,
                             enum = Some [JStr ''quiet'', JStr ''loud'']\<rparr>)],
              required = Some [''level''], additionalProperties = Some False\<rparr>)"

text \<open>A schema that lists a required name and declares no \<open>properties\<close>.\<close>

definition requiredOnlySchema :: function_schema where
  "requiredOnlySchema =
     exampleSchema ''lookup''
       (Some \<lparr>params_type = Some ''object'', properties = None,
              required = Some [''key''], additionalProperties = None\<rparr>)"

text \<open>
  An endpoint that answers the first request with a call of \<open>getCurrentTime\<close>, the second
  with the text \<open>It is noon\<close>, and fails every later one with status 500.
\<close>

definition timeCall :: function_call where
  "timeCall = \<lparr>fc_name = ''getCurrentTime'', fc_arguments = Some ''{}''\<rparr>"

definition callResponse :: response where
  "callResponse =
     \<lparr>choices = [\<lparr>choice_message = \<lparr>api_content = None, api_function_call = Some timeCall\<rparr>,
                  finish_reason = ''function_call''\<rparr>],
      response_usage = 90, response_model = ''gpt-4''\<rparr>"

definition textResponse :: "string \<Rightarrow> response" where
  "textResponse txt =
     \<lparr>choices = [\<lparr>choice_message = \<lparr>api_content = Some txt, api_function_call = None\<rparr>,
                  finish_reason = ''stop''\<rparr>],
      response_usage = 120, response_model = ''gpt-4''\<rparr>"

definition serverError :: api_error where
  "serverError = \<lparr>status = Some 500, code = None, api_error_message = Some ''Internal error''\<rparr>"

definition rateLimited :: api_error where
  "rateLimited = \<lparr>status = Some 429, code = None, api_error_message = Some ''Too many requests''\<rparr>"

definition unauthorized :: api_error where
  "unauthorized = \<lparr>status = Some 401, code = None, api_error_message = Some ''Unauthorized''\<rparr>"

definition noonEndpoint :: environment where
  "noonEndpoint =
     \<lparr>endpoint = (\<lambda>n. if n = 0 then Inr callResponse
                       else if n = 1 then Inr (textResponse ''It is noon'')
                       else Inl serverError),
      Math_random = (\<lambda>n. 1 / 2)\<rparr>"

definition textEndpoint :: environment where
  "textEndpoint =
     \<lparr>endpoint = (\<lambda>n. Inr (textResponse ''Hello!'')), Math_random = (\<lambda>n. 1 / 2)\<rparr>"

definition failingEndpoint :: "api_error \<Rightarrow> environment" where
  "failingEndpoint e = \<lparr>endpoint = (\<lambda>n. Inl e), Math_random = (\<lambda>n. 1 / 4)\<rparr>"

definition readyClient :: openai_client where
  "readyClient = \<lparr>client_initialized = True\<rparr>"

definition startWorld :: world where
  "startWorld = \<lparr>now = 0, requests = 0, randoms = 0, sleeps = [], handlerCalls = []\<rparr>"

definition timeChat :: chat_manager where
  "timeChat = newChatManager readyClient timeRegistry"

definition userEntry :: "string \<Rightarrow> message" where
  "userEntry txt = \<lparr>role = ''user'', content = txt, msg_timestamp = Some 0,
                    function_call = None, name = None\<rparr>"

definition assistantEntry :: "string \<Rightarrow> message" where
  "assistantEntry txt = \<lparr>role = ''assistant'', content = txt, msg_timestamp = Some 0,
                         function_call = None, name = None\<rparr>"

text \<open>The default system message followed by 25 pairs of a user and an assistant entry.\<close>

definition seededChat :: chat_manager where
  "seededChat =
     (newChatManager readyClient emptyRegistry)
       \<lparr>messageHistory := defaultSystemMessage
          # concat (replicate 25 [userEntry ''question'', assistantEntry ''answer''])\<rparr>"

text \<open>A function whose promise fulfils after seven seconds.\<close>

definition slowRegistry :: function_registry where
  "slowRegistry =
     registryWith ''slowFunction'' (exampleSchema ''slowFunction'' None)
       (\<lambda>args. Resolves 7000 (JStr ''done''))"

section \<open>Properties\<close>

subsection \<open>The transcript keeps its system message and its bound\<close>

lemma slice_from_length:
  "0 < k \<Longrightarrow> length (slice_from (- int k) xs) = min k (length xs)"
  by (auto simp: slice_from_def)

lemma trimHistory_max: "maxHistoryLength (trimHistory cm) = maxHistoryLength cm"
  by (simp add: trimHistory_def Let_def)

lemma trimHistory_hd:
  "messageHistory cm \<noteq> [] \<Longrightarrow> hd (messageHistory (trimHistory cm)) = hd (messageHistory cm)"
  by (simp add: trimHistory_def Let_def)

lemma trimHistory_length_20:
  assumes "maxHistoryLength cm = 20"
  shows "length (messageHistory (trimHistory cm)) = min 20 (length (messageHistory cm))"
proof (cases "length (messageHistory cm) \<le> 20")
  case True
  with assms show ?thesis by (simp add: trimHistory_def)
next
  case False
  have "- int (maxHistoryLength cm) + 1 = - int 19" using assms by simp
  with False assms show ?thesis
    by (simp add: trimHistory_def Let_def slice_from_length del: of_nat_numeral)
qed

lemma addToHistory_step:
  assumes "addToHistory t cm r c md = Inr cm'"
    and "maxHistoryLength cm = 20" and "messageHistory cm = sys # rest"
  shows "maxHistoryLength cm' = 20 \<and> hd (messageHistory cm') = sys
         \<and> length (messageHistory cm') = min 20 (Suc (Suc (length rest)))
         \<and> messageHistory cm' \<noteq> []"
proof -
  from assms(1) obtain body m where c: "c = JStr body"
    and cm': "cm' = trimHistory (cm\<lparr>messageHistory := messageHistory cm @ [m]\<rparr>)"
    by (auto simp: addToHistory_def split: if_splits jsval.splits)
  let ?cm1 = "cm\<lparr>messageHistory := messageHistory cm @ [m]\<rparr>"
  have 1: "maxHistoryLength ?cm1 = 20" using assms(2) by simp
  have 2: "messageHistory ?cm1 \<noteq> []" by simp
  have 3: "hd (messageHistory ?cm1) = sys" using assms(3) by simp
  have 4: "length (messageHistory ?cm1) = Suc (Suc (length rest))" using assms(3) by simp
  have len: "length (messageHistory cm') = min 20 (Suc (Suc (length rest)))"
    unfolding cm' using trimHistory_length_20[OF 1] 4 by simp
  then have "messageHistory cm' \<noteq> []" by auto
  then show ?thesis
    using len trimHistory_hd[OF 2] 3 1 by (simp add: cm' trimHistory_max)
qed

lemma addedTo_invariant:
  assumes "addedTo cm cm'"
    and "maxHistoryLength cm = 20" and "messageHistory cm = sys # rest"
  shows "maxHistoryLength cm' = 20 \<and> hd (messageHistory cm') = sys
         \<and> length (messageHistory cm') \<le> 20 \<and> messageHistory cm' \<noteq> []"
  using assms
proof (induction rule: addedTo.induct)
  case (one t cm r c md cm')
  from addToHistory_step[OF one(1) one(2) one(3)] show ?case by simp
next
  case (more cm cm' t r c md cm'')
  from more.IH[OF more.prems] obtain rest' where h: "messageHistory cm' = sys # rest'"
    and m: "maxHistoryLength cm' = 20"
    by (cases "messageHistory cm'") auto
  from addToHistory_step[OF more.hyps(2) m h] show ?case by simp
qed

text \<open>
  Claim C3. In a chat manager whose history limit is the constructor's 20 and whose
  transcript starts with a system message, after every sequence of \<open>addToHistory\<close> calls
  that returned the first entry is still that system message and the transcript has at
  most 20 entries. In particular, with 50 entries after the system message one more
  \<open>addToHistory\<close> leaves exactly 20 entries, the first being the system message.
\<close>

theorem addToHistory_keeps_system_message:
  assumes "maxHistoryLength cm = 20" and "messageHistory cm = sys # rest"
  shows "(\<forall>cm'. addedTo cm cm' \<longrightarrow>
            hd (messageHistory cm') = sys \<and> length (messageHistory cm') \<le> 20)
       \<and> (\<forall>t r c md cm'. length rest = 50 \<longrightarrow> addToHistory t cm r c md = Inr cm' \<longrightarrow>
            length (messageHistory cm') = 20 \<and> hd (messageHistory cm') = sys)"
proof (intro conjI allI impI)
  fix cm' assume "addedTo cm cm'"
  from addedTo_invariant[OF this assms]
  show "hd (messageHistory cm') = sys" and "length (messageHistory cm') \<le> 20" by simp_all
next
  fix t r c md cm'
  assume l: "length rest = 50" and a: "addToHistory t cm r c md = Inr cm'"
  from addToHistory_step[OF a assms] l
  show "length (messageHistory cm') = 20" and "hd (messageHistory cm') = sys" by simp_all
qed

text \<open>
  The claim at the seeded transcript of 25 pairs: one more entry leaves 20 entries.
\<close>

theorem addToHistory_keeps_system_message_witness:
  "maxHistoryLength seededChat = 20
   \<and> length (messageHistory seededChat) = 51
   \<and> hd (messageHistory seededChat) = defaultSystemMessage
   \<and> (\<exists>cm'. addToHistory 7 seededChat ''user'' (JStr ''one more'') noMetadata = Inr cm'
          \<and> addedTo seededChat cm'
          \<and> length (messageHistory cm') = 20
          \<and> hd (messageHistory cm') = defaultSystemMessage)"
proof -
  let ?rest = "concat (replicate 25 [userEntry ''question'', assistantEntry ''answer''])"
  have m: "maxHistoryLength seededChat = 20"
    by (simp add: seededChat_def newChatManager_def)
  have h: "messageHistory seededChat = defaultSystemMessage # ?rest"
    by (simp add: seededChat_def)
  have l: "length ?rest = 50" by (simp add: length_concat sum_list_replicate)
  obtain cm' where a: "addToHistory 7 seededChat ''user'' (JStr ''one more'') noMetadata = Inr cm'"
    by (simp add: addToHistory_def validRoles_def)
  from addToHistory_keeps_system_message[OF m h] a l addedTo.one[OF a]
  have "length (messageHistory cm') = 20 \<and> hd (messageHistory cm') = defaultSystemMessage"
    by blast
  with a addedTo.one[OF a] m h l show ?thesis by auto
qed

subsection \<open>The registry\<close>

lemma decimal_5000: "decimal 5000 = ''5000''"
  by (simp add: decimal.simps digit_def)

lemma timeoutRejection_5000:
  "timeoutRejection 5000
   = ThrownError (JsError ''Error'' ''Function execution timeout after 5000ms'')"
  by (simp add: timeoutRejection_def decimal_5000)

lemma race_late:
  "\<not> settlesBefore out ms \<Longrightarrow> race out ms = (Inl (timeoutRejection ms), ms)"
  by (cases out) auto

text \<open>
  Claim C1 says that \<open>executeFunctionSafely\<close> races the handler against the caller's
  \<open>options.timeout\<close>. The code passes the option nowhere: it only writes it into the
  \<open>timeout\<close> field of the result. With \<open>timeout: 10000\<close> a handler that fulfils after
  7000 ms loses against the fixed 5000 ms timer of \<open>executeFunction\<close>, and the
  result is a failure that reports 10000 as the timeout in force.
\<close>

theorem executeFunctionSafely_timeout_option_unused:
  "executeFunctionSafely example_js slowRegistry 0 ''slowFunction'' (JObj [])
     \<lparr>opt_timeout = Some 10000, opt_sanitizeResults = Some True\<rparr>
   = (\<lparr>success = False, result = JNull, functionName = None, timestamp = None,
       error = Some \<lparr>err_message =
                       ''Function execution failed: Function execution timeout after 5000ms'',
                     err_type = ''EXECUTION_ERROR'', err_timestamp = 5000,
                     err_functionName = Some ''slowFunction'',
                     err_originalError = Some ''Error'', err_executionTime = None\<rparr>,
       executionTime = Some 5000, timeout = Some 10000\<rparr>, 5000, [JObj []])"
  by (simp add: executeFunctionSafely_def executeFunction_def slowRegistry_def registryWith_def
      exampleSchema_def defaultArgs_def valid_def timeoutRejection_def decimal_5000 timeoutMs_def
      caught_def formatError_def)

text \<open>In general the option changes nothing but that field.\<close>

lemma executeFunctionSafely_timeout_only_recorded:
  "executeFunctionSafely p reg t0 f args \<lparr>opt_timeout = T, opt_sanitizeResults = s\<rparr>
   = (case executeFunctionSafely p reg t0 f args \<lparr>opt_timeout = None, opt_sanitizeResults = s\<rparr> of
        (r, t, calls) \<Rightarrow>
          (if timeout r = None then r
           else r\<lparr>timeout := Some (case T of None \<Rightarrow> 5000 | Some x \<Rightarrow> x)\<rparr>, t, calls))"
  by (auto simp: executeFunctionSafely_def Let_def formatError_def split: prod.splits sum.splits)

text \<open>
  Claim C9 says that every record is stored under its schema's name. \<open>registerFunction\<close>
  checks the name and the schema separately and never compares them: it stores a schema
  named \<open>greet\<close> under the key \<open>alias\<close>.
\<close>

theorem registerFunction_name_mismatch:
  "registerFunction emptyRegistry ''alias'' (exampleSchema ''greet'' None)
     (Callable (\<lambda>args. Returns (JStr ''Hello'')))
   = Inr (registryWith ''alias'' (exampleSchema ''greet'' None) (\<lambda>args. Returns (JStr ''Hello'')))
   \<and> \<not> namesMatch (registryWith ''alias'' (exampleSchema ''greet'' None)
                      (\<lambda>args. Returns (JStr ''Hello'')))"
  by (simp add: registerFunction_def emptyRegistry_def exampleSchema_def registryWith_def
      validateSchema_def truthy_def namesMatch_def)

text \<open>
  Claim C7 says that \<open>sanitizeResult\<close> turns an object that contains a function into a
  JSON-serializable approximation. \<open>JSON.stringify\<close> does not throw on functions, so the
  \<open>catch\<close> block that would replace or drop them does not run: the object comes back
  as it is, function included, and so do a function and \<open>undefined\<close> themselves.
\<close>

theorem sanitizeResult_keeps_functions:
  "sanitizeResult (JObj [(''a'', JNum (Fin 1)), (''f'', JFunction)])
     = JObj [(''a'', JNum (Fin 1)), (''f'', JFunction)]
   \<and> \<not> isJson (JObj [(''a'', JNum (Fin 1)), (''f'', JFunction)])
   \<and> sanitizeResult JFunction = JFunction
   \<and> sanitizeResult JUndefined = JUndefined"
  by simp

text \<open>The first half of the claim holds: a JSON value comes back unchanged.\<close>

lemma not_stringifyThrows_isJson:
  shows "isJson v \<Longrightarrow> \<not> stringifyThrows v"
    and "isJsonList xs \<Longrightarrow> \<not> stringifyThrowsList xs"
    and "isJsonProps kvs \<Longrightarrow> \<not> stringifyThrowsProps kvs"
  by (induction v and xs and kvs rule: isJson_isJsonList_isJsonProps.induct) auto

lemma sanitizeResult_json_identity: "isJson v \<Longrightarrow> sanitizeResult v = v"
  using not_stringifyThrows_isJson(1)[of v] by simp

text \<open>
  What the code does ensure for every value: \<open>JSON.stringify\<close> will not throw on the
  result.
\<close>

lemma stringifyThrowsProps_append:
  "stringifyThrowsProps (xs @ ys) = (stringifyThrowsProps xs \<or> stringifyThrowsProps ys)"
  by (induction xs) auto

lemma stringifyThrowsProps_indexed_chars:
  "\<not> stringifyThrowsProps (indexed i (map (\<lambda>c. JStr [c]) s))"
  by (induction s arbitrary: i) auto

lemma sanitizeResult_stringifiable:
  shows "\<not> stringifyThrows (sanitizeResult v)"
    and "\<not> stringifyThrowsProps (sanitizeProps kvs)"
    and "\<not> stringifyThrowsProps (sanitizeElems i xs)"
proof (induction v and kvs and i xs rule: sanitizeResult_sanitizeProps_sanitizeElems.induct)
  case (1 v)
  show ?case
  proof (cases "stringifyThrows v")
    case False
    then show ?thesis by simp
  next
    case True
    with 1 show ?thesis
      by (cases v)
         (simp_all add: stringifyThrowsProps_append stringifyThrowsProps_indexed_chars)
  qed
qed auto

lemma executeFunction_accepted:
  assumes "map_of (functionMap reg) fname = Some fd" and "argumentsAccepted p fd args"
  shows "executeFunction p reg t0 fname args =
           (case race (fd_handler fd (defaultArgs args)) timeoutMs of
              (Inr r, t) \<Rightarrow> (Inr (formatSuccess (t0 + t) r fname), t, [defaultArgs args])
            | (Inl thrown, t) \<Rightarrow> (caught (t0 + t) thrown fname, t, [defaultArgs args]))"
  using assms
  by (auto simp: executeFunction_def argumentsAccepted_def Let_def valid_def
        split: option.splits sum.splits)

text \<open>
  Claim C6 as stated fails: the code has no error kind for a timeout. A handler that
  never settles gets the failure kind \<open>EXECUTION_ERROR\<close>, the kind a throwing handler
  gets; only the message tells them apart.
\<close>

theorem executeFunction_timeout_counterexample:
  "fst (executeFunction example_js
          (registryWith ''wait'' (exampleSchema ''wait'' None) (\<lambda>args. Pending))
          0 ''wait'' (JObj []))
     = Inr (formatError 5000 ''Function execution failed: Function execution timeout after 5000ms''
              ''EXECUTION_ERROR'' (Some ''wait'') (Some ''Error'') None)
   \<and> fst (executeFunction example_js
          (registryWith ''wait'' (exampleSchema ''wait'' None)
             (\<lambda>args. Throws (ThrownError (JsError ''Error'' ''broken''))))
          0 ''wait'' (JObj []))
     = Inr (formatError 0 ''Function execution failed: broken''
              ''EXECUTION_ERROR'' (Some ''wait'') (Some ''Error'') None)"
  by (simp add: executeFunction_def registryWith_def exampleSchema_def defaultArgs_def valid_def
      timeoutRejection_def decimal_5000 timeoutMs_def caught_def)

text \<open>
  Claim C6, amended. For a registered function and arguments that pass validation, if
  the handler has not settled when the fixed timer of 5000 ms fires, \<open>executeFunction\<close>
  returns, 5000 ms after the call, the failure of kind \<open>EXECUTION_ERROR\<close> whose
  message names the timeout. The result is this one value whether the handler would
  fulfil later, reject later or never settle; the handler was called once, and
  \<open>executeFunction\<close> has no access to write the registry or the chat manager.
\<close>

theorem executeFunction_timeout:
  assumes "map_of (functionMap reg) fname = Some fd"
    and "argumentsAccepted p fd args"
    and "\<not> settlesBefore (fd_handler fd (defaultArgs args)) timeoutMs"
  shows "executeFunction p reg t0 fname args =
           (Inr (formatError (t0 + 5000)
                   ''Function execution failed: Function execution timeout after 5000ms''
                   ''EXECUTION_ERROR'' (Some fname) (Some ''Error'') None),
            5000, [defaultArgs args])"
  using executeFunction_accepted[OF assms(1,2)] race_late[OF assms(3)]
  by (simp add: timeoutRejection_5000 caught_def timeoutMs_def)

text \<open>The amended claim at a handler that fulfils after 7000 ms.\<close>

theorem executeFunction_timeout_witness:
  "executeFunction example_js slowRegistry 100 ''slowFunction'' (JObj [(''data'', JStr ''test'')])
     = (Inr (formatError 5100
               ''Function execution failed: Function execution timeout after 5000ms''
               ''EXECUTION_ERROR'' (Some ''slowFunction'') (Some ''Error'') None),
        5000, [JObj [(''data'', JStr ''test'')]])"
proof -
  let ?fd = "\<lparr>fd_schema = exampleSchema ''slowFunction'' None,
              fd_handler = (\<lambda>args. Resolves 7000 (JStr ''done'')), fd_name = ''slowFunction''\<rparr>"
  have 1: "map_of (functionMap slowRegistry) ''slowFunction'' = Some ?fd"
    by (simp add: slowRegistry_def registryWith_def)
  have 2: "argumentsAccepted example_js ?fd (JObj [(''data'', JStr ''test'')])"
    by (simp add: argumentsAccepted_def exampleSchema_def)
  have 3: "\<not> settlesBefore (fd_handler ?fd (defaultArgs (JObj [(''data'', JStr ''test'')]))) timeoutMs"
    by (simp add: timeoutMs_def)
  from executeFunction_timeout[OF 1 2 3, of 100] show ?thesis
    by (simp add: defaultArgs_def)
qed

text \<open>
  Claim C5 as stated fails twice. A schema may list required names without declaring
  \<open>properties\<close>; then \<open>validateArguments\<close> accepts everything and the handler runs
  although the required name is missing. And arguments that are present and well typed
  do not make the call a success: the handler may still throw.
\<close>

theorem executeFunction_required_counterexample:
  "registerFunction emptyRegistry ''lookup'' requiredOnlySchema
       (Callable (\<lambda>args. Returns (JStr ''found'')))
     = Inr (registryWith ''lookup'' requiredOnlySchema (\<lambda>args. Returns (JStr ''found'')))
   \<and> executeFunction example_js
        (registryWith ''lookup'' requiredOnlySchema (\<lambda>args. Returns (JStr ''found'')))
        0 ''lookup'' (JObj [])
     = (Inr (formatSuccess 0 (JStr ''found'') ''lookup''), 0, [JObj []])
   \<and> executeFunction example_js
        (registryWith ''calculateMath'' calculateMathSchema
           (\<lambda>args. Throws (ThrownError (JsError ''Error'' ''Math calculation failed''))))
        0 ''calculateMath'' (JObj [(''expression'', JStr ''1/0'')])
     = (Inr (formatError 0 ''Function execution failed: Math calculation failed''
               ''EXECUTION_ERROR'' (Some ''calculateMath'') (Some ''Error'') None),
        0, [JObj [(''expression'', JStr ''1/0'')]])"
  by (simp add: registerFunction_def emptyRegistry_def requiredOnlySchema_def exampleSchema_def
      registryWith_def validateSchema_def truthy_def executeFunction_def defaultArgs_def
      validateArguments_def valid_def calculateMathSchema_def stringParam_def example_js_def
      validateParameterType_def validateParameterConstraints_def otherConstraints_def
      below_def above_def caught_def timeoutMs_def)

text \<open>Arguments that are well typed and within the constraints pass the validator.\<close>

lemma isInteger_frac: "isInteger q = (frac q = 0)"
  by (auto simp: isInteger_def frac_def)

lemma validateParameterType_declared:
  assumes "ofDeclaredType t v"
  shows "validateParameterType v t"
  using assms
  by (cases v) (auto simp: validateParameterType_def isInteger_frac split: jsnum.splits)

lemma scalar_primitive: "scalar v \<Longrightarrow> is_primitive v"
  by (cases v) auto

lemma not_below: "inRange x lo hi \<Longrightarrow> \<not> below (Some x) lo"
  by (auto simp: inRange_def below_def split: option.splits)

lemma not_above: "inRange x lo hi \<Longrightarrow> \<not> above (Some x) hi"
  by (auto simp: inRange_def above_def split: option.splits)

lemma otherConstraints_met:
  assumes "wellTyped v sch" and "meetsConstraints p v sch"
  shows "otherConstraints p v sch n = valid"
proof -
  have num: "\<not> below (number_of v) (minimum sch) \<and> \<not> above (number_of v) (maximum sch)"
    if "ptype sch = Some ''number'' \<or> ptype sch = Some ''integer''"
  proof -
    from that assms(1) obtain q where v: "v = JNum (Fin q)"
      by (cases v) (auto simp: wellTyped_def split: jsnum.splits)
    with that assms(2) have "inRange q (minimum sch) (maximum sch)"
      by (auto simp: meetsConstraints_def)
    with v show ?thesis by (simp add: not_below not_above)
  qed
  have arr: "\<not> below (length_of v) (minItems sch) \<and> \<not> above (length_of v) (maxItems sch)"
    if "ptype sch = Some ''array''"
  proof -
    from that assms(1) obtain xs where v: "v = JArr xs"
      by (cases v) (auto simp: wellTyped_def split: jsnum.splits)
    with that assms(2) have "inRange (of_nat (length xs)) (minItems sch) (maxItems sch)"
      by (auto simp: meetsConstraints_def)
    with v show ?thesis by (simp add: not_below not_above)
  qed
  have en: "array_includes allowed v" if "enum sch = Some allowed" for allowed
    using that assms(2) by (auto simp: meetsConstraints_def array_includes_def scalar_primitive)
  show ?thesis
    using num arr en
    by (auto simp: otherConstraints_def Let_def split: option.splits)
qed

lemma validateParameterConstraints_met:
  assumes "wellTyped v sch" and "meetsConstraints p v sch"
  shows "validateParameterConstraints p v sch n = Inr valid"
proof (cases "ptype sch = Some ''string''")
  case False
  with otherConstraints_met[OF assms] show ?thesis
    by (simp add: validateParameterConstraints_def)
next
  case True
  with assms(1) obtain s where v: "v = JStr s"
    by (cases v) (auto simp: wellTyped_def split: jsnum.splits)
  with True assms(2) have r: "inRange (of_nat (length s)) (minLength sch) (maxLength sch)"
    and pat: "case pattern sch of None \<Rightarrow> True
              | Some pat \<Rightarrow> pat = [] \<or> RegExp_test p pat s = Inr True"
    by (auto simp: meetsConstraints_def)
  from r v have b: "\<not> below (length_of v) (minLength sch)" "\<not> above (length_of v) (maxLength sch)"
    by (simp_all add: not_below not_above)
  show ?thesis
    using True b pat v otherConstraints_met[OF assms]
    by (auto simp: validateParameterConstraints_def truthy_def split: option.splits)
qed

lemma validateEntries_met:
  assumes "\<forall>(n, x) \<in> set kvs. \<forall>sch. map_of props n = Some sch
             \<longrightarrow> wellTyped x sch \<and> meetsConstraints p x sch"
  shows "validateEntries p props kvs = Inr valid"
  using assms
proof (induction kvs)
  case Nil
  then show ?case by simp
next
  case (Cons kv kvs)
  obtain n x where kv: "kv = (n, x)" by (cases kv)
  from Cons.prems have rest: "\<forall>(n, x) \<in> set kvs. \<forall>sch. map_of props n = Some sch
             \<longrightarrow> wellTyped x sch \<and> meetsConstraints p x sch"
    by auto
  show ?case
  proof (cases "map_of props n")
    case None
    with kv Cons.IH[OF rest] show ?thesis by simp
  next
    case (Some sch)
    with Cons.prems kv have wt: "wellTyped x sch" and mc: "meetsConstraints p x sch" by auto
    have ty: "truthy (ptype sch) \<Longrightarrow> validateParameterType x (the (ptype sch))"
      using wt by (auto simp: wellTyped_def truthy_def split: option.splits
                    intro: validateParameterType_declared)
    from kv Some ty validateParameterConstraints_met[OF wt mc, of n] Cons.IH[OF rest]
    show ?thesis by (auto simp: valid_def)
  qed
qed

lemma firstMissing_first:
  assumes "\<forall>b \<in> set before. has_property p b args" and "\<not> has_property p k args"
  shows "firstMissing p args (before @ k # after) = Some k"
  using assms by (induction before) auto

lemma firstMissing_none:
  assumes "\<forall>k \<in> set req. has_property p k args"
  shows "firstMissing p args req = None"
  using assms by (induction req) auto


lemma validateArguments_met:
  assumes "properties ps = Some props"
    and "\<forall>k \<in> set (case required ps of None \<Rightarrow> [] | Some req \<Rightarrow> req). k \<in> fst ` set kvs"
    and "\<forall>(n, x) \<in> set kvs. \<forall>sch. map_of props n = Some sch
             \<longrightarrow> wellTyped x sch \<and> meetsConstraints p x sch"
    and "additionalProperties ps = Some False \<longrightarrow> fst ` set kvs \<subseteq> fst ` set props"
  shows "validateArguments p (JObj kvs) ps = Inr valid"
proof -
  have "\<forall>k \<in> set (case required ps of None \<Rightarrow> [] | Some req \<Rightarrow> req).
          has_property p k (JObj kvs)"
    using assms(2) by auto
  from firstMissing_none[OF this]
  have fm: "firstMissing p (JObj kvs) (case required ps of None \<Rightarrow> [] | Some req \<Rightarrow> req) = None" .
  have ve: "validateEntries p props (entries (JObj kvs)) = Inr valid"
    using validateEntries_met[OF assms(3)] by simp
  have un: "filter (\<lambda>param. param \<notin> set (map fst props)) (map fst kvs) = []"
    if "additionalProperties ps = Some False"
    using that assms(4) by (auto simp: filter_empty_conv)
  show ?thesis
    using assms(1) fm ve un
    by (auto simp: validateArguments_def valid_def Let_def)
qed

text \<open>
  Claim C5, amended. Take a registered function whose schema has \<open>parameters\<close> that
  declare \<open>properties\<close>, and a plain object as arguments. If a name of the \<open>required\<close>
  list is not a property of the arguments, own or inherited, while every name before it
  in the list is one, \<open>executeFunction\<close> returns a failure of kind \<open>VALIDATION_ERROR\<close>
  whose message names that name, the first missing one; it takes no time and does not
  call the handler. If every required name is an own property of the arguments, every
  argument that has a property schema is well typed for it and meets its constraints,
  no argument is without a property schema where \<open>additionalProperties\<close> is \<open>false\<close>,
  and the handler returns or fulfils before the 5000 ms timer, \<open>executeFunction\<close>
  returns success with the handler's value.
\<close>

theorem executeFunction_required:
  assumes "map_of (functionMap reg) fname = Some fd"
    and "schema_parameters (fd_schema fd) = Some ps"
    and "properties ps = Some props"
  shows "(\<forall>req before k after.
            required ps = Some req \<longrightarrow> req = before @ k # after \<longrightarrow>
            (\<forall>b \<in> set before. b \<in> fst ` set kvs \<or> b \<in> set (Object_prototype_keys p)) \<longrightarrow>
            k \<notin> fst ` set kvs \<longrightarrow> k \<notin> set (Object_prototype_keys p) \<longrightarrow>
            executeFunction p reg t0 fname (JObj kvs)
              = (Inr (formatError t0 (''Missing required parameter: '' @ k)
                        ''VALIDATION_ERROR'' None None None), 0, []))
       \<and> (\<forall>v t.
            (\<forall>k \<in> set (case required ps of None \<Rightarrow> [] | Some req \<Rightarrow> req). k \<in> fst ` set kvs) \<longrightarrow>
            (\<forall>(n, x) \<in> set kvs. \<forall>sch. map_of props n = Some sch
               \<longrightarrow> wellTyped x sch \<and> meetsConstraints p x sch) \<longrightarrow>
            (additionalProperties ps = Some False \<longrightarrow> fst ` set kvs \<subseteq> fst ` set props) \<longrightarrow>
            race (fd_handler fd (JObj kvs)) timeoutMs = (Inr v, t) \<longrightarrow>
            executeFunction p reg t0 fname (JObj kvs)
              = (Inr (formatSuccess (t0 + t) v fname), t, [JObj kvs]))"
proof (intro conjI allI impI)
  fix req before k after
  assume r: "required ps = Some req" and sp: "req = before @ k # after"
    and b: "\<forall>b \<in> set before. b \<in> fst ` set kvs \<or> b \<in> set (Object_prototype_keys p)"
    and k: "k \<notin> fst ` set kvs" "k \<notin> set (Object_prototype_keys p)"
  from b have 1: "\<forall>b \<in> set before. has_property p b (JObj kvs)" by auto
  from k have 2: "\<not> has_property p k (JObj kvs)" by auto
  from firstMissing_first[OF 1 2, of after] sp
  have "firstMissing p (JObj kvs) req = Some k" by simp
  with assms r
  show "executeFunction p reg t0 fname (JObj kvs)
          = (Inr (formatError t0 (''Missing required parameter: '' @ k)
                    ''VALIDATION_ERROR'' None None None), 0, [])"
    by (simp add: executeFunction_def validateArguments_def invalid_def defaultArgs_def)
next
  fix v t
  assume pres: "\<forall>k \<in> set (case required ps of None \<Rightarrow> [] | Some req \<Rightarrow> req). k \<in> fst ` set kvs"
    and ok: "\<forall>(n, x) \<in> set kvs. \<forall>sch. map_of props n = Some sch
               \<longrightarrow> wellTyped x sch \<and> meetsConstraints p x sch"
    and extra: "additionalProperties ps = Some False \<longrightarrow> fst ` set kvs \<subseteq> fst ` set props"
    and rc: "race (fd_handler fd (JObj kvs)) timeoutMs = (Inr v, t)"
  from validateArguments_met[OF assms(3) pres ok extra] assms(2)
  have acc: "argumentsAccepted p fd (JObj kvs)"
    by (simp add: argumentsAccepted_def defaultArgs_def valid_def)
  from executeFunction_accepted[OF assms(1) acc, of t0] rc
  show "executeFunction p reg t0 fname (JObj kvs)
          = (Inr (formatSuccess (t0 + t) v fname), t, [JObj kvs])"
    by (simp add: defaultArgs_def)
qed

text \<open>
  The amended claim at the schema of \<open>getCurrentWeather\<close>, whose required list is
  \<open>longitude\<close>, \<open>latitude\<close>: without arguments the message names \<open>longitude\<close>, with
  \<open>longitude\<close> alone it names \<open>latitude\<close>, and the handler is not called. And at a schema
  with bounds and an \<open>enum\<close>: arguments within them succeed.
\<close>

theorem executeFunction_required_witness:
  "executeFunction example_js
       (registryWith ''getCurrentWeather'' weatherSchema (\<lambda>args. Resolves 120 (JObj [])))
       0 ''getCurrentWeather'' (JObj [])
     = (Inr (formatError 0 ''Missing required parameter: longitude''
               ''VALIDATION_ERROR'' None None None), 0, [])
   \<and> executeFunction example_js
       (registryWith ''getCurrentWeather'' weatherSchema (\<lambda>args. Resolves 120 (JObj [])))
       0 ''getCurrentWeather'' (JObj [(''longitude'', JStr ''-74.0060'')])
     = (Inr (formatError 0 ''Missing required parameter: latitude''
               ''VALIDATION_ERROR'' None None None), 0, [])
   \<and> executeFunction example_js
       (registryWith ''setVolume'' volumeSchema (\<lambda>args. Returns (JBool True)))
       0 ''setVolume'' (JObj [(''level'', JNum (Fin 7)), (''mode'', JStr ''quiet'')])
     = (Inr (formatSuccess 0 (JBool True) ''setVolume''), 0,
        [JObj [(''level'', JNum (Fin 7)), (''mode'', JStr ''quiet'')]])"
proof -
  let ?h = "\<lambda>args::jsval. Resolves 120 (JObj [])"
  let ?reg = "registryWith ''getCurrentWeather'' weatherSchema ?h"
  let ?fd = "\<lparr>fd_schema = weatherSchema, fd_handler = ?h, fd_name = ''getCurrentWeather''\<rparr>"
  let ?props = "[(''latitude'', stringParam), (''longitude'', stringParam)]"
  let ?ps = "\<lparr>params_type = Some ''object'', properties = Some ?props,
              required = Some [''longitude'', ''latitude''], additionalProperties = None\<rparr>"
  have 1: "map_of (functionMap ?reg) ''getCurrentWeather'' = Some ?fd"
    by (simp add: registryWith_def)
  have 2: "schema_parameters (fd_schema ?fd) = Some ?ps"
    by (simp add: weatherSchema_def)
  have 3: "properties ?ps = Some ?props" by simp
  have r: "required ?ps = Some [''longitude'', ''latitude'']" by simp
  have a: "executeFunction example_js ?reg 0 ''getCurrentWeather'' (JObj [])
     = (Inr (formatError 0 ''Missing required parameter: longitude''
               ''VALIDATION_ERROR'' None None None), 0, [])"
  proof -
    have s: "[''longitude'', ''latitude''] = [] @ ''longitude'' # [''latitude'']" by simp
    have bf: "\<forall>b \<in> set []. b \<in> fst ` set ([] :: (string \<times> jsval) list)
               \<or> b \<in> set (Object_prototype_keys example_js)"
      by simp
    have k1: "''longitude'' \<notin> fst ` set ([] :: (string \<times> jsval) list)" by simp
    have k2: "''longitude'' \<notin> set (Object_prototype_keys example_js)"
      by (simp add: example_js_def)
    from executeFunction_required[OF 1 2 3, of "[]" example_js 0]
    have "\<forall>req before k after.
            required ?ps = Some req \<longrightarrow> req = before @ k # after \<longrightarrow>
            (\<forall>b \<in> set before. b \<in> fst ` set ([] :: (string \<times> jsval) list)
                \<or> b \<in> set (Object_prototype_keys example_js)) \<longrightarrow>
            k \<notin> fst ` set ([] :: (string \<times> jsval) list) \<longrightarrow>
            k \<notin> set (Object_prototype_keys example_js) \<longrightarrow>
            executeFunction example_js ?reg 0 ''getCurrentWeather'' (JObj [])
              = (Inr (formatError 0 (''Missing required parameter: '' @ k)
                        ''VALIDATION_ERROR'' None None None), 0, [])"
      by (rule conjunct1)
    from this[THEN spec, THEN spec, THEN spec, THEN spec, THEN mp, THEN mp, THEN mp, THEN mp,
        THEN mp, OF r s bf k1 k2] show ?thesis by simp
  qed
  let ?one = "[(''longitude'', JStr ''-74.0060'')]"
  have b: "executeFunction example_js ?reg 0 ''getCurrentWeather'' (JObj ?one)
     = (Inr (formatError 0 ''Missing required parameter: latitude''
               ''VALIDATION_ERROR'' None None None), 0, [])"
  proof -
    have s: "[''longitude'', ''latitude''] = [''longitude''] @ ''latitude'' # []" by simp
    have bf: "\<forall>b \<in> set [''longitude'']. b \<in> fst ` set ?one
               \<or> b \<in> set (Object_prototype_keys example_js)"
      by simp
    have k1: "''latitude'' \<notin> fst ` set ?one" by simp
    have k2: "''latitude'' \<notin> set (Object_prototype_keys example_js)"
      by (simp add: example_js_def)
    from executeFunction_required[OF 1 2 3, of ?one example_js 0]
    have "\<forall>req before k after.
            required ?ps = Some req \<longrightarrow> req = before @ k # after \<longrightarrow>
            (\<forall>b \<in> set before. b \<in> fst ` set ?one \<or> b \<in> set (Object_prototype_keys example_js)) \<longrightarrow>
            k \<notin> fst ` set ?one \<longrightarrow> k \<notin> set (Object_prototype_keys example_js) \<longrightarrow>
            executeFunction example_js ?reg 0 ''getCurrentWeather'' (JObj ?one)
              = (Inr (formatError 0 (''Missing required parameter: '' @ k)
                        ''VALIDATION_ERROR'' None None None), 0, [])"
      by (rule conjunct1)
    from this[THEN spec, THEN spec, THEN spec, THEN spec, THEN mp, THEN mp, THEN mp, THEN mp,
        THEN mp, OF r s bf k1 k2] show ?thesis by simp
  qed
  let ?g = "\<lambda>args::jsval. Returns (JBool True)"
  let ?vreg = "registryWith ''setVolume'' volumeSchema ?g"
  let ?vfd = "\<lparr>fd_schema = volumeSchema, fd_handler = ?g, fd_name = ''setVolume''\<rparr>"
  let ?level = "\<lparr>ptype = Some ''integer'', minLength = None, maxLength = None,
                 pattern = None, minimum = Some 0, maximum = Some 10,
                 minItems = None, maxItems = None, enum = None\<rparr>"
  let ?mode = "\<lparr>ptype = Some ''string'', minLength = Some 1, maxLength = Some 8,
                pattern = None, minimum = None, maximum = None,
                minItems = None, maxItems = None,
                enum = Some [JStr ''quiet'', JStr ''loud'']\<rparr>"
  let ?vprops = "[(''level'', ?level), (''mode'', ?mode)]"
  let ?vps = "\<lparr>params_type = Some ''object'', properties = Some ?vprops,
               required = Some [''level''], additionalProperties = Some False\<rparr>"
  let ?given = "[(''level'', JNum (Fin 7)), (''mode'', JStr ''quiet'')]"
  have v1: "map_of (functionMap ?vreg) ''setVolume'' = Some ?vfd"
    by (simp add: registryWith_def)
  have v2: "schema_parameters (fd_schema ?vfd) = Some ?vps"
    by (simp add: volumeSchema_def exampleSchema_def)
  have v3: "properties ?vps = Some ?vprops" by simp
  have pres: "\<forall>k \<in> set (case required ?vps of None \<Rightarrow> [] | Some req \<Rightarrow> req). k \<in> fst ` set ?given"
    by simp
  have ok: "\<forall>(n, x) \<in> set ?given. \<forall>sch. map_of ?vprops n = Some sch
               \<longrightarrow> wellTyped x sch \<and> meetsConstraints example_js x sch"
    by (simp add: wellTyped_def meetsConstraints_def inRange_def)
  have extra: "additionalProperties ?vps = Some False \<longrightarrow> fst ` set ?given \<subseteq> fst ` set ?vprops"
    by simp
  have rc: "race (fd_handler ?vfd (JObj ?given)) timeoutMs = (Inr (JBool True), 0)" by simp
  from executeFunction_required[OF v1 v2 v3, of ?given example_js 0]
  have "\<forall>v t.
            (\<forall>k \<in> set (case required ?vps of None \<Rightarrow> [] | Some req \<Rightarrow> req). k \<in> fst ` set ?given) \<longrightarrow>
            (\<forall>(n, x) \<in> set ?given. \<forall>sch. map_of ?vprops n = Some sch
               \<longrightarrow> wellTyped x sch \<and> meetsConstraints example_js x sch) \<longrightarrow>
            (additionalProperties ?vps = Some False \<longrightarrow> fst ` set ?given \<subseteq> fst ` set ?vprops) \<longrightarrow>
            race (fd_handler ?vfd (JObj ?given)) timeoutMs = (Inr v, t) \<longrightarrow>
            executeFunction example_js ?vreg 0 ''setVolume'' (JObj ?given)
              = (Inr (formatSuccess (0 + t) v ''setVolume''), t, [JObj ?given])"
    by (rule conjunct2)
  from this[THEN spec, THEN spec, THEN mp, THEN mp, THEN mp, THEN mp, OF pres ok extra rc]
  have c: "executeFunction example_js ?vreg 0 ''setVolume'' (JObj ?given)
     = (Inr (formatSuccess 0 (JBool True) ''setVolume''), 0, [JObj ?given])"
    by simp
  show ?thesis by (intro conjI) (rule a, rule b, rule c)
qed

subsection \<open>The retry policy of the completion client\<close>

lemma map_upt_Suc_shift: "map f [0..<Suc k] = f 0 # map (\<lambda>i. f (Suc i)) [0..<k]"
  by (simp add: upt_conv_Cons map_Suc_upt[symmetric] del: upt_Suc)

text \<open>
  What a run of the retry loop does: it makes some number \<open>k\<close> of retries, each after a
  failure that is not terminal and each after the computed delay, and the request after
  the last retry decides the result.
\<close>

lemma retry_trace:
  assumes "executeWithRetryFrom orc M a le w = (res, w')" and "a \<le> M"
  shows "\<exists>k. a + k \<le> M
           \<and> requests w' = requests w + Suc k
           \<and> randoms w' = randoms w + k
           \<and> sleeps w' = sleeps w @ map (backoff orc a (randoms w)) [0..<k]
           \<and> (\<forall>i<k. \<exists>e. endpoint orc (requests w + i) = Inl e \<and> \<not> shouldNotRetry e)
           \<and> (case endpoint orc (requests w + k) of
                 Inr r \<Rightarrow> res = Inr r
               | Inl e \<Rightarrow> res = Inl (handleApiError e) \<and> (shouldNotRetry e \<or> a + k = M))"
  using assms
proof (induction orc M a le w arbitrary: res w' rule: executeWithRetryFrom.induct)
  case (1 orc M a le w)
  show ?case
  proof (cases "endpoint orc (requests w)")
    case (Inr r)
    with "1.prems" have "res = Inr r" "w' = w\<lparr>requests := Suc (requests w)\<rparr>"
      by (simp_all add: executeWithRetryFrom.simps[of orc M a le w])
    with Inr "1.prems"(2) show ?thesis
      by (intro exI[where x = 0]) simp
  next
    case (Inl e)
    let ?w1 = "w\<lparr>requests := Suc (requests w)\<rparr>"
    show ?thesis
    proof (cases "shouldNotRetry e \<or> a = M")
      case True
      with Inl "1.prems" have "res = Inl (handleApiError e)" "w' = ?w1"
        by (auto simp: executeWithRetryFrom.simps[of orc M a le w] Let_def split: if_splits)
      with Inl True "1.prems"(2) show ?thesis
        by (intro exI[where x = 0]) auto
    next
      case False
      let ?delay = "2 ^ a * 1000 + Math_random orc (randoms ?w1) * 1000"
      let ?w2 = "sleep ?delay (?w1\<lparr>randoms := Suc (randoms ?w1)\<rparr>)"
      from False Inl "1.prems" have rec: "executeWithRetryFrom orc M (Suc a) (Some e) ?w2 = (res, w')"
        by (simp add: executeWithRetryFrom.simps[of orc M a le w] Let_def)
      from False "1.prems"(2) have le: "Suc a \<le> M" by simp
      have "\<exists>k. Suc a + k \<le> M
           \<and> requests w' = requests ?w2 + Suc k
           \<and> randoms w' = randoms ?w2 + k
           \<and> sleeps w' = sleeps ?w2 @ map (backoff orc (Suc a) (randoms ?w2)) [0..<k]
           \<and> (\<forall>i<k. \<exists>e. endpoint orc (requests ?w2 + i) = Inl e \<and> \<not> shouldNotRetry e)
           \<and> (case endpoint orc (requests ?w2 + k) of
                 Inr r \<Rightarrow> res = Inr r
               | Inl e \<Rightarrow> res = Inl (handleApiError e) \<and> (shouldNotRetry e \<or> Suc a + k = M))"
      proof -
        from False have nsr: "\<not> shouldNotRetry e" and neq: "a \<noteq> M" by simp_all
        show ?thesis
          using "1.IH"[OF "1.prems"(2) Inl refl nsr neq refl refl refl rec le] by simp
      qed
      then obtain k where k: "Suc a + k \<le> M"
        "requests w' = requests ?w2 + Suc k" "randoms w' = randoms ?w2 + k"
        "sleeps w' = sleeps ?w2 @ map (backoff orc (Suc a) (randoms ?w2)) [0..<k]"
        "\<forall>i<k. \<exists>e. endpoint orc (requests ?w2 + i) = Inl e \<and> \<not> shouldNotRetry e"
        "case endpoint orc (requests ?w2 + k) of
                 Inr r \<Rightarrow> res = Inr r
               | Inl e \<Rightarrow> res = Inl (handleApiError e) \<and> (shouldNotRetry e \<or> Suc a + k = M)"
        by blast
      have w2: "requests ?w2 = Suc (requests w)" "randoms ?w2 = Suc (randoms w)"
        "sleeps ?w2 = sleeps w @ [?delay]"
        by (simp_all add: sleep_def)
      have sl: "sleeps w' = sleeps w @ map (backoff orc a (randoms w)) [0..<Suc k]"
        unfolding k(4) w2 map_upt_Suc_shift by simp
      have ret: "\<forall>i<Suc k. \<exists>e. endpoint orc (requests w + i) = Inl e \<and> \<not> shouldNotRetry e"
      proof (intro allI impI)
        fix i assume "i < Suc k"
        show "\<exists>e. endpoint orc (requests w + i) = Inl e \<and> \<not> shouldNotRetry e"
        proof (cases i)
          case 0
          with Inl False show ?thesis by simp
        next
          case (Suc j)
          with \<open>i < Suc k\<close> k(5) w2 show ?thesis by simp
        qed
      qed
      have fin: "case endpoint orc (requests w + Suc k) of
                 Inr r \<Rightarrow> res = Inr r
               | Inl e \<Rightarrow> res = Inl (handleApiError e) \<and> (shouldNotRetry e \<or> a + Suc k = M)"
        using k(6) w2 by (auto split: sum.splits)
      show ?thesis
        using k(1,2,3) w2(1,2) sl ret fin by (intro exI[where x = "Suc k"]) (simp del: upt_Suc)
    qed
  qed
qed

text \<open>
  Claim C4. Let the client be initialised, the messages pass the checks of
  \<open>createChatCompletion\<close>, and \<open>Math.random()\<close> return values in \<open>[0, 1)\<close>. If the first
  request fails with status 401, 403, 400 or 404, the classified error propagates after
  that one request, with no retry. In every run there are \<open>k \<le> 3\<close> retries, hence
  \<open>k + 1\<close> requests; each retry follows a failure that is not terminal; the delay slept
  before retry \<open>i\<close> (from 0) is \<open>2^i * 1000\<close> plus a jitter in \<open>[0, 1000)\<close>; and the
  last request decides: its response is returned, or its classified error propagates,
  which happens only when that error is terminal or the three retries are used up.
\<close>

theorem createChatCompletion_retry_policy:
  assumes "client_initialized c" and "messages \<noteq> []"
    and "\<not> list_ex (\<lambda>m. role m = [] \<or> content m = []) messages"
    and "\<forall>i. 0 \<le> Math_random orc i \<and> Math_random orc i < 1"
    and "createChatCompletion orc c messages w = (res, w')"
  shows "(\<forall>e. endpoint orc (requests w) = Inl e
              \<and> status e \<in> {Some 401, Some 403, Some 400, Some 404}
            \<longrightarrow> res = Inl (handleApiError e) \<and> w' = w\<lparr>requests := Suc (requests w)\<rparr>)
       \<and> (\<exists>k delays. k \<le> 3 \<and> length delays = k
             \<and> requests w' = requests w + Suc k
             \<and> sleeps w' = sleeps w @ delays
             \<and> (\<forall>i<k. \<exists>jitter. 0 \<le> jitter \<and> jitter < 1000
                          \<and> delays ! i = 2 ^ i * 1000 + jitter)
             \<and> (\<forall>i<k. \<exists>e. endpoint orc (requests w + i) = Inl e \<and> \<not> shouldNotRetry e)
             \<and> (case endpoint orc (requests w + k) of
                   Inr r \<Rightarrow> res = Inr r
                 | Inl e \<Rightarrow> res = Inl (handleApiError e) \<and> (shouldNotRetry e \<or> k = 3)))"
proof -
  from assms(1,2,3,5) have run: "executeWithRetryFrom orc 3 0 None w = (res, w')"
    by (simp add: createChatCompletion_def executeWithRetry_def)
  have terminal: "\<forall>e. endpoint orc (requests w) = Inl e
              \<and> status e \<in> {Some 401, Some 403, Some 400, Some 404}
            \<longrightarrow> res = Inl (handleApiError e) \<and> w' = w\<lparr>requests := Suc (requests w)\<rparr>"
  proof (intro allI impI)
    fix e
    assume e: "endpoint orc (requests w) = Inl e
                 \<and> status e \<in> {Some 401, Some 403, Some 400, Some 404}"
    then have "shouldNotRetry e" by (auto simp: shouldNotRetry_def)
    with e run show "res = Inl (handleApiError e) \<and> w' = w\<lparr>requests := Suc (requests w)\<rparr>"
      by (simp add: executeWithRetryFrom.simps[of orc 3 0 None w])
  qed
  from retry_trace[OF run] obtain k where k: "k \<le> 3"
    "requests w' = requests w + Suc k"
    "sleeps w' = sleeps w @ map (backoff orc 0 (randoms w)) [0..<k]"
    "\<forall>i<k. \<exists>e. endpoint orc (requests w + i) = Inl e \<and> \<not> shouldNotRetry e"
    "case endpoint orc (requests w + k) of
       Inr r \<Rightarrow> res = Inr r
     | Inl e \<Rightarrow> res = Inl (handleApiError e) \<and> (shouldNotRetry e \<or> 0 + k = 3)"
    by auto
  let ?delays = "map (backoff orc 0 (randoms w)) [0..<k]"
  have jit: "\<forall>i<k. \<exists>jitter. 0 \<le> jitter \<and> jitter < 1000 \<and> ?delays ! i = 2 ^ i * 1000 + jitter"
  proof (intro allI impI)
    fix i assume "i < k"
    let ?j = "Math_random orc (randoms w + i) * 1000"
    from assms(4) have "0 \<le> ?j" "?j < 1000" by simp_all
    moreover from \<open>i < k\<close> have "?delays ! i = 2 ^ i * 1000 + ?j" by simp
    ultimately show "\<exists>jitter. 0 \<le> jitter \<and> jitter < 1000 \<and> ?delays ! i = 2 ^ i * 1000 + jitter"
      by blast
  qed
  have fin: "case endpoint orc (requests w + k) of
       Inr r \<Rightarrow> res = Inr r
     | Inl e \<Rightarrow> res = Inl (handleApiError e) \<and> (shouldNotRetry e \<or> k = 3)"
    using k(5) by (cases "endpoint orc (requests w + k)") simp_all
  have "\<exists>k delays. k \<le> 3 \<and> length delays = k
             \<and> requests w' = requests w + Suc k
             \<and> sleeps w' = sleeps w @ delays
             \<and> (\<forall>i<k. \<exists>jitter. 0 \<le> jitter \<and> jitter < 1000
                          \<and> delays ! i = 2 ^ i * 1000 + jitter)
             \<and> (\<forall>i<k. \<exists>e. endpoint orc (requests w + i) = Inl e \<and> \<not> shouldNotRetry e)
             \<and> (case endpoint orc (requests w + k) of
                   Inr r \<Rightarrow> res = Inr r
                 | Inl e \<Rightarrow> res = Inl (handleApiError e) \<and> (shouldNotRetry e \<or> k = 3))"
    using k(1,2,3,4) jit fin
    by (intro exI[where x = k] exI[where x = ?delays] conjI) simp_all
  with terminal show ?thesis by (rule conjI)
qed

text \<open>Two runs: an endpoint that always answers 401, and one that always answers 429.\<close>

lemma unauthorized_run:
  "createChatCompletion (failingEndpoint unauthorized) readyClient [defaultSystemMessage] startWorld
   = (Inl (handleApiError unauthorized), startWorld\<lparr>requests := 1\<rparr>)"
  by (simp add: createChatCompletion_def executeWithRetry_def readyClient_def
      defaultSystemMessage_def failingEndpoint_def unauthorized_def shouldNotRetry_def
      startWorld_def executeWithRetryFrom.simps[of _ 3 0])

lemma rateLimited_run:
  "createChatCompletion (failingEndpoint rateLimited) readyClient [defaultSystemMessage] startWorld
   = (Inl (handleApiError rateLimited),
      \<lparr>now = 7750, requests = 4, randoms = 3, sleeps = [1250, 2250, 4250], handlerCalls = []\<rparr>)"
  by (simp add: createChatCompletion_def executeWithRetry_def readyClient_def
      defaultSystemMessage_def failingEndpoint_def rateLimited_def shouldNotRetry_def
      startWorld_def sleep_def Let_def
      executeWithRetryFrom.simps[of _ 3 0] executeWithRetryFrom.simps[of _ 3 "Suc 0"]
      executeWithRetryFrom.simps[of _ 3 "Suc (Suc 0)"]
      executeWithRetryFrom.simps[of _ 3 "Suc (Suc (Suc 0))"])

theorem createChatCompletion_retry_policy_witness:
  "createChatCompletion (failingEndpoint unauthorized) readyClient [defaultSystemMessage] startWorld
     = (Inl (handleApiError unauthorized), startWorld\<lparr>requests := 1\<rparr>)
   \<and> createChatCompletion (failingEndpoint rateLimited) readyClient [defaultSystemMessage] startWorld
     = (Inl (handleApiError rateLimited),
        \<lparr>now = 7750, requests = 4, randoms = 3, sleeps = [1250, 2250, 4250], handlerCalls = []\<rparr>)"
proof -
  let ?orc = "failingEndpoint unauthorized"
  obtain res w' where run:
    "createChatCompletion ?orc readyClient [defaultSystemMessage] startWorld = (res, w')"
    by (cases "createChatCompletion ?orc readyClient [defaultSystemMessage] startWorld") blast
  have 1: "client_initialized readyClient" by (simp add: readyClient_def)
  have 2: "[defaultSystemMessage] \<noteq> []" by simp
  have 3: "\<not> list_ex (\<lambda>m. role m = [] \<or> content m = []) [defaultSystemMessage]"
    by (simp add: defaultSystemMessage_def)
  have 4: "\<forall>i. 0 \<le> Math_random ?orc i \<and> Math_random ?orc i < 1"
    by (simp add: failingEndpoint_def)
  have 5: "endpoint ?orc (requests startWorld) = Inl unauthorized
           \<and> status unauthorized \<in> {Some 401, Some 403, Some 400, Some 404}"
    by (simp add: failingEndpoint_def unauthorized_def)
  from createChatCompletion_retry_policy[OF 1 2 3 4 run] 5
  have "res = Inl (handleApiError unauthorized)
        \<and> w' = startWorld\<lparr>requests := Suc (requests startWorld)\<rparr>"
    by blast
  with run have "createChatCompletion ?orc readyClient [defaultSystemMessage] startWorld
     = (Inl (handleApiError unauthorized), startWorld\<lparr>requests := 1\<rparr>)"
    by (simp add: startWorld_def)
  with rateLimited_run show ?thesis by simp
qed


subsection \<open>Processing a message\<close>

lemma trimHistory_subset:
  "set (messageHistory (trimHistory cm)) \<subseteq> set (messageHistory cm)"
proof (cases "messageHistory cm")
  case Nil
  then show ?thesis by (simp add: trimHistory_def)
next
  case (Cons a list)
  have "set (slice_from k (messageHistory cm)) \<subseteq> set (messageHistory cm)" for k
    by (auto simp: slice_from_def dest: in_set_dropD)
  with Cons show ?thesis
    by (auto simp: trimHistory_def Let_def)
qed

lemma processMessageTry_rejects:
  assumes "userInput = JStr [] \<or> typeof userInput \<noteq> ''string''"
  shows "processMessageTry n p orc cm w userInput options
         = Some (Inl ''User input must be a non-empty string'', cm, w)"
  using assms by (cases userInput) (auto simp: processMessageTry_def)

text \<open>
  Claim C8. For a user input that is the empty string or not a string, whatever the
  state, \<open>processMessage\<close> returns a failure envelope (\<open>success: false\<close>) without any
  request or handler call. The one change of the transcript is the \<open>addToHistory\<close> of an
  assistant message that carries the error text, so every user message of the
  transcript afterwards was in it before.
\<close>

theorem processMessage_rejects_empty_input:
  assumes "userInput = JStr [] \<or> typeof userInput \<noteq> ''string''"
  shows "\<exists>r cm'. processMessage n p orc cm w userInput options = Some (Inr r, cm', w)
           \<and> env_success r = False
           \<and> addToHistory (now w) cm ''assistant'' (JStr (env_message r)) noMetadata = Inr cm'
           \<and> (\<forall>m \<in> set (messageHistory cm'). role m = ''user'' \<longrightarrow> m \<in> set (messageHistory cm))"
proof -
  let ?r = "processingErrorEnvelope (now w) ''User input must be a non-empty string''"
  let ?m = "\<lparr>role = ''assistant'', content = env_message ?r, msg_timestamp = Some (now w),
             function_call = None, name = None\<rparr>"
  let ?cm' = "trimHistory (cm\<lparr>messageHistory := messageHistory cm @ [?m]\<rparr>)"
  have a: "addToHistory (now w) cm ''assistant'' (JStr (env_message ?r)) noMetadata = Inr ?cm'"
    by (simp add: addToHistory_def validRoles_def noMetadata_def)
  have pm: "processMessage n p orc cm w userInput options = Some (Inr ?r, ?cm', w)"
    using processMessageTry_rejects[OF assms] a
    by (simp add: processMessage_def Let_def)
  have s: "env_success ?r = False" by (simp add: processingErrorEnvelope_def)
  have u: "\<forall>m \<in> set (messageHistory ?cm'). role m = ''user'' \<longrightarrow> m \<in> set (messageHistory cm)"
  proof (intro ballI impI)
    fix m assume "m \<in> set (messageHistory ?cm')" and r: "role m = ''user''"
    with trimHistory_subset[of "cm\<lparr>messageHistory := messageHistory cm @ [?m]\<rparr>"]
    have "m \<in> set (messageHistory cm) \<or> m = ?m" by auto
    with r show "m \<in> set (messageHistory cm)" by auto
  qed
  from pm s a u show ?thesis by blast
qed

text \<open>The claim at \<open>processMessage("")\<close> on a fresh conversation.\<close>

theorem processMessage_rejects_empty_input_witness:
  "\<exists>r cm'. processMessage 0 example_js textEndpoint timeChat startWorld (JStr []) noOptions
             = Some (Inr r, cm', startWorld)
        \<and> env_success r = False
        \<and> map role (messageHistory cm') = [''system'', ''assistant'']"
proof -
  have h: "JStr [] = JStr [] \<or> typeof (JStr []) \<noteq> ''string''" by simp
  from processMessage_rejects_empty_input[OF h, of 0 example_js textEndpoint timeChat startWorld noOptions]
  obtain r cm' where
    1: "processMessage 0 example_js textEndpoint timeChat startWorld (JStr []) noOptions
          = Some (Inr r, cm', startWorld)"
    and 2: "env_success r = False"
    and 3: "addToHistory (now startWorld) timeChat ''assistant'' (JStr (env_message r)) noMetadata = Inr cm'"
    by blast
  from 3 have "map role (messageHistory cm') = [''system'', ''assistant'']"
    by (auto simp: addToHistory_def validRoles_def timeChat_def newChatManager_def
          trimHistory_def defaultSystemMessage_def)
  with 1 2 show ?thesis by (intro exI[where x = r] exI[where x = cm'] conjI)
qed

text \<open>\<open>processMessage\<close> catches every exception: when it returns, it returns an envelope.\<close>

lemma processMessage_never_throws:
  "processMessage n p orc cm w userInput options \<noteq> Some (Inl e, cm', w')"
  by (auto simp: processMessage_def Let_def addToHistory_def validRoles_def
        split: option.splits sum.splits prod.splits)

text \<open>
  Claim C10. Whenever \<open>generateResponse\<close> completes, with a response or with an
  exception, the transcript is what it was before the call; and \<open>generateResponse\<close>
  completes exactly when the \<open>processMessage\<close> call inside it does.
\<close>

theorem generateResponse_restores_history:
  "(\<forall>res cm' w'. generateResponse n p orc cm w userInput options = Some (res, cm', w')
       \<longrightarrow> messageHistory cm' = messageHistory cm)
   \<and> ((generateResponse n p orc cm w userInput options = None)
        = (processMessage n p orc cm w userInput options = None))"
  by (auto simp: generateResponse_def Let_def split: option.splits sum.splits prod.splits)

text \<open>
  The claim at a run that answers with a text: \<open>processMessage\<close> appended the user and
  the assistant message, and \<open>generateResponse\<close> put the old transcript back.
\<close>

theorem generateResponse_restores_history_witness:
  "(case generateResponse 1 example_js textEndpoint timeChat startWorld (JStr ''Hi'') noOptions of
      Some (Inr r, cm', w') \<Rightarrow> env_success r \<and> messageHistory cm' = messageHistory timeChat
    | _ \<Rightarrow> False)"
proof -
  let ?g = "generateResponse 1 example_js textEndpoint timeChat startWorld (JStr ''Hi'') noOptions"
  have ev: "(case ?g of Some (Inr r, cm', w') \<Rightarrow> env_success r | _ \<Rightarrow> False)"
    by code_simp
  then obtain res cm' w' where g0: "?g = Some (res, cm', w')"
    by (cases ?g) auto
  with ev obtain r where r: "res = Inr r" and s: "env_success r"
    by (cases res) auto
  from g0 r have g: "?g = Some (Inr r, cm', w')" by simp
  from generateResponse_restores_history[of 1 example_js textEndpoint timeChat startWorld
         "JStr ''Hi''" noOptions] g
  have "messageHistory cm' = messageHistory timeChat" by blast
  with g s show ?thesis by simp
qed

text \<open>
  Claim C2 says that a function-call request followed by a text completion ends with
  the transcript user, assistant (function call), function (result), assistant (text)
  and a success envelope. The second completion is never requested:
  \<open>handleFunctionCall\<close> writes the assistant entry with the empty content, and
  \<open>createChatCompletion\<close> rejects every transcript that holds an entry with empty
  content. The exception enters the \<open>catch\<close> block of \<open>handleFunctionCall\<close>, which
  appends a second function entry, fails the same way again and returns a failure
  envelope. One request was sent.
\<close>

theorem processMessage_function_call_round_fails:
  "(case processMessage 3 example_js noonEndpoint timeChat startWorld
           (JStr ''What time is it?'') noOptions of
      Some (Inr r, cm', w') \<Rightarrow>
        env_success r = False
        \<and> map_option ee_type (env_error r) = Some ''FUNCTION_EXECUTION_ERROR''
        \<and> map role (messageHistory cm')
            = [''system'', ''user'', ''assistant'', ''function'', ''function'']
        \<and> map content (tl (messageHistory cm')) =
             [''What time is it?'', [], ''2025-11-07T12:00:00.000Z'',
              ''Function execution failed: Failed to get final response after function execution: Each message must have role and content properties'']
        \<and> requests w' = 1
    | _ \<Rightarrow> False)"
  by code_simp

subsection \<open>No function-call round completes\<close>

lemma recent_snoc: "recent (Suc j) (xs @ [x]) = recent j xs @ [x]"
  by (simp add: recent_def)

lemma recent_trimHistory:
  assumes "j < maxHistoryLength cm"
  shows "recent j (messageHistory (trimHistory cm)) = recent j (messageHistory cm)"
proof (cases "length (messageHistory cm) \<le> maxHistoryLength cm")
  case True
  then show ?thesis by (simp add: trimHistory_def)
next
  case False
  let ?h = "messageHistory cm" and ?n = "maxHistoryLength cm"
  from False have len: "?n < length ?h" by simp
  show ?thesis
  proof (cases "?n = 1")
    case True
    with assms have "j = 0" by simp
    then show ?thesis by (simp add: recent_def)
  next
    case n1: False
    with assms have n2: "2 \<le> ?n" by simp
    then have neg: "- int ?n + 1 < 0" by simp
    have ar: "nat (int (length ?h) + (- int ?n + 1)) = length ?h - (?n - 1)"
      using len n2 by linarith
    have sl: "slice_from (- int ?n + 1) ?h = drop (length ?h - (?n - 1)) ?h"
      unfolding slice_from_def using neg ar by simp
    have t: "messageHistory (trimHistory cm) = hd ?h # drop (length ?h - (?n - 1)) ?h"
      using False sl by (simp add: trimHistory_def Let_def)
    have "recent j (hd ?h # drop (length ?h - (?n - 1)) ?h) = recent j ?h"
      using assms len n2 by (simp add: recent_def drop_Cons' )
    with t show ?thesis by simp
  qed
qed


lemma addToHistory_string:
  assumes "r \<in> set validRoles"
  shows "addToHistory t cm r (JStr s) md =
           Inr (trimHistory (cm\<lparr>messageHistory := messageHistory cm @
                  [\<lparr>role = r, content = s, msg_timestamp = Some t,
                    function_call = md_function_call md, name = md_name md\<rparr>]\<rparr>))"
  using assms by (simp add: addToHistory_def)

lemma addToHistory_frame:
  assumes "addToHistory t cm r c md = Inr cm'"
  shows "maxHistoryLength cm' = maxHistoryLength cm \<and> openaiClient cm' = openaiClient cm
         \<and> functionRegistry cm' = functionRegistry cm"
  using assms
  by (auto simp: addToHistory_def trimHistory_def Let_def split: if_splits jsval.splits)

text \<open>
  An entry with empty content among the last \<open>j\<close> entries stays among the last \<open>j + 1\<close>
  when one more entry is added, as long as the history limit is above \<open>j + 1\<close>.
\<close>

lemma addToHistory_hasEmptyContent:
  assumes a: "addToHistory t cm r (JStr s) md = Inr cm'"
    and j: "Suc j < maxHistoryLength cm"
    and e: "s = [] \<or> hasEmptyContent j cm"
  shows "hasEmptyContent (Suc j) cm'"
proof -
  let ?m = "\<lparr>role = r, content = s, msg_timestamp = Some t,
             function_call = md_function_call md, name = md_name md\<rparr>"
  let ?cm1 = "cm\<lparr>messageHistory := messageHistory cm @ [?m]\<rparr>"
  from a have cm': "cm' = trimHistory ?cm1"
    by (auto simp: addToHistory_def split: if_splits)
  from j have "Suc j < maxHistoryLength ?cm1" by simp
  from recent_trimHistory[OF this]
  have "recent (Suc j) (messageHistory cm') = recent j (messageHistory cm) @ [?m]"
    by (simp add: cm' recent_snoc)
  with e show ?thesis by (auto simp: hasEmptyContent_def)
qed

lemma set_recent: "set (recent j xs) \<subseteq> set xs"
  by (simp add: recent_def set_drop_subset)

text \<open>With such an entry in the transcript, no request is sent.\<close>

lemma createChatCompletion_empty_content:
  assumes "hasEmptyContent j cm"
  shows "\<exists>e. createChatCompletion orc (openaiClient cm) (getFormattedHistory cm) w = (Inl e, w)"
proof -
  from assms obtain m where m: "m \<in> set (messageHistory cm)" "content m = []"
    using set_recent[of j "messageHistory cm"] by (auto simp: hasEmptyContent_def list_ex_iff)
  then have "list_ex (\<lambda>m. role m = [] \<or> content m = []) (getFormattedHistory cm)"
    by (auto simp: getFormattedHistory_def list_ex_iff intro!: bexI[where x = m])
  then show ?thesis by (auto simp: createChatCompletion_def)
qed

lemma getFinalResponse_empty_content:
  assumes "hasEmptyContent j cm"
  shows "\<exists>e. getFinalResponseAfterFunctionWith recur orc cm w = Some (Inl e, cm, w)"
  using createChatCompletion_empty_content[OF assms, of orc w]
  by (auto simp: getFinalResponseAfterFunctionWith_def)

lemma function_role: "''function'' \<in> set validRoles" "''assistant'' \<in> set validRoles"
  by (simp_all add: validRoles_def)

lemma handleFunctionCallCatch_empty_content:
  assumes "hasEmptyContent j cm" and "Suc j < maxHistoryLength cm"
  shows "\<exists>cm'. handleFunctionCallCatch recur orc cm w fc e
                = Some (Inr (functionErrorEnvelope (now w) e (fc_name fc)), cm', w)"
proof -
  let ?md = "\<lparr>md_function_call = None, md_name = Some (fc_name fc)\<rparr>"
  obtain cm1 where a: "addToHistory (now w) cm ''function''
        (JStr (''Function execution failed: '' @ e)) ?md = Inr cm1"
    by (simp add: addToHistory_string[OF function_role(1)])
  from addToHistory_hasEmptyContent[OF a assms(2)] assms(1)
  have "hasEmptyContent (Suc j) cm1" by simp
  from getFinalResponse_empty_content[OF this, of recur orc w] a
  show ?thesis by (auto simp: handleFunctionCallCatch_def)
qed

lemma finalResponseOrCatch_empty_content:
  assumes "hasEmptyContent j cm" and "Suc j < maxHistoryLength cm"
  shows "\<exists>e cm'. finalResponseOrCatch recur orc cm w fc
                = Some (Inr (functionErrorEnvelope (now w) e (fc_name fc)), cm', w)"
proof -
  from getFinalResponse_empty_content[OF assms(1), of recur orc w]
  obtain e where "getFinalResponseAfterFunctionWith recur orc cm w = Some (Inl e, cm, w)"
    by blast
  with handleFunctionCallCatch_empty_content[OF assms, of recur orc w fc e]
  show ?thesis by (auto simp: finalResponseOrCatch_def)
qed

text \<open>
  So with the constructor's history limit (any limit of at least 4), whatever function
  is requested and whatever the handler and the endpoint would do, \<open>handleFunctionCall\<close>
  returns a failure envelope, sends no request and never calls back into
  \<open>processOpenAIResponse\<close>.
\<close>

lemma handleFunctionCall_never_completes:
  assumes "4 \<le> maxHistoryLength cm"
  shows "\<exists>e cm' w'. handleFunctionCallWith recur p orc cm w fc
                = Some (Inr (functionErrorEnvelope (now w') e (fc_name fc)), cm', w')
            \<and> requests w' = requests w"
proof -
  let ?mdc = "\<lparr>md_function_call = Some fc, md_name = None\<rparr>"
  let ?md = "\<lparr>md_function_call = None, md_name = Some (fc_name fc)\<rparr>"
  obtain cm1 where a1: "addToHistory (now w) cm ''assistant'' (JStr []) ?mdc = Inr cm1"
    by (simp add: addToHistory_string[OF function_role(2)])
  from assms have "Suc 0 < maxHistoryLength cm" by simp
  from addToHistory_hasEmptyContent[OF a1 this] have e1: "hasEmptyContent (Suc 0) cm1" by simp
  from addToHistory_frame[OF a1] assms have m1: "4 \<le> maxHistoryLength cm1" by simp
  then have j1: "Suc (Suc 0) < maxHistoryLength cm1" by simp
  have after: "\<exists>e cm'. finalResponseOrCatch recur orc cm2 w2 fc
                = Some (Inr (functionErrorEnvelope (now w2) e (fc_name fc)), cm', w2)"
    if a2: "addToHistory t cm1 ''function'' (JStr s) ?md = Inr cm2" for t s cm2 w2
  proof -
    from addToHistory_hasEmptyContent[OF a2 j1] e1 have e2: "hasEmptyContent (Suc (Suc 0)) cm2"
      by simp
    from addToHistory_frame[OF a2] m1 have "Suc (Suc (Suc 0)) < maxHistoryLength cm2" by simp
    from finalResponseOrCatch_empty_content[OF e2 this] show ?thesis .
  qed
  have adds: "\<exists>cm2. addToHistory t cm1 ''function'' (JStr s) ?md = Inr cm2" for t s
    by (simp add: addToHistory_string[OF function_role(1)])
  show ?thesis
  proof (cases "if truthy (fc_arguments fc)
                 then JSON_parse p (the (fc_arguments fc)) else Inr (JObj [])")
    case (Inl parseError)
    from adds obtain cm2 where a2: "addToHistory (now w) cm1 ''function''
        (JStr (''Failed to parse function arguments: '' @ parseError)) ?md = Inr cm2"
      by blast
    from after[OF a2, of w] a1 a2 Inl show ?thesis
      by (auto simp: handleFunctionCallWith_def)
  next
    case (Inr functionArgs)
    obtain functionResult t calls where ex:
      "executeFunctionSafely p (functionRegistry cm1) (now w) (fc_name fc) functionArgs callOptions
         = (functionResult, t, calls)"
      by (cases "executeFunctionSafely p (functionRegistry cm1) (now w) (fc_name fc)
                   functionArgs callOptions") blast
    let ?w1 = "w\<lparr>now := now w + t,
                  handlerCalls := handlerCalls w @ map (\<lambda>a. (fc_name fc, a)) calls\<rparr>"
    show ?thesis
    proof (cases "formatFunctionResult p functionResult (fc_name fc)")
      case fInl: (Inl e)
      from handleFunctionCallCatch_empty_content[OF e1 j1, of recur orc ?w1 fc e]
        a1 Inr ex fInl show ?thesis
        by (auto simp: handleFunctionCallWith_def Let_def)
    next
      case fInr: (Inr resultMessage)
      from adds obtain cm2 where a2: "addToHistory (now ?w1) cm1 ''function''
          (JStr resultMessage) ?md = Inr cm2"
        by blast
      from after[OF a2, of ?w1] a1 a2 Inr ex fInr show ?thesis
        by (auto simp: handleFunctionCallWith_def Let_def)
    qed
  qed
qed

lemma function_call_round_never_completes:
  assumes "4 \<le> maxHistoryLength cm"
    and "choices resp = ch # others"
    and "api_function_call (choice_message ch) = Some fc"
  shows "\<exists>e cm' w'. processOpenAIResponse (Suc n) p orc cm w resp
                = Some (Inr (functionErrorEnvelope (now w') e (fc_name fc)), cm', w')
            \<and> requests w' = requests w"
  using handleFunctionCall_never_completes[OF assms(1), of "processOpenAIResponse n p orc" p orc w fc]
    assms(2,3)
  by (auto simp: processOpenAIResponseWith_def rethrow_def)


text \<open>
  A consequence: the recursion that the code leaves unbounded never nests. One level is
  enough for \<open>processMessage\<close> and \<open>generateResponse\<close> to return, always with an
  envelope.
\<close>

lemma processOpenAIResponse_returns:
  assumes "4 \<le> maxHistoryLength cm"
  shows "processOpenAIResponse (Suc n) p orc cm w resp \<noteq> None"
proof (cases "choices resp")
  case Nil
  then show ?thesis by (simp add: processOpenAIResponseWith_def)
next
  case (Cons ch others)
  show ?thesis
  proof (cases "api_function_call (choice_message ch)")
    case None
    with Cons show ?thesis
      by (simp add: processOpenAIResponseWith_def split: sum.splits)
  next
    case (Some fc)
    from function_call_round_never_completes[OF assms Cons Some, of n p orc w]
    show ?thesis by auto
  qed
qed

lemma processMessage_returns:
  assumes "4 \<le> maxHistoryLength cm"
  shows "\<exists>r cm' w'. processMessage (Suc n) p orc cm w userInput options = Some (Inr r, cm', w')"
proof -
  have ret: "processMessageTry (Suc n) p orc cm w userInput options \<noteq> None"
  proof (cases userInput)
    case (JStr s)
    show ?thesis
    proof (cases "addToHistory (now w) cm ''user'' (JStr (String_trim p s)) noMetadata")
      case (Inl e)
      with JStr show ?thesis by (simp add: processMessageTry_def)
    next
      case (Inr cm1)
      from addToHistory_frame[OF Inr] assms have "4 \<le> maxHistoryLength cm1" by simp
      from processOpenAIResponse_returns[OF this] JStr Inr show ?thesis
        by (simp add: processMessageTry_def Let_def split: prod.splits sum.splits option.splits)
    qed
  qed (simp_all add: processMessageTry_def)
  then obtain res cm1 w1 where t: "processMessageTry (Suc n) p orc cm w userInput options
      = Some (res, cm1, w1)"
    by (cases "processMessageTry (Suc n) p orc cm w userInput options") auto
  show ?thesis
  proof (cases res)
    case (Inr r)
    with t show ?thesis by (simp add: processMessage_def)
  next
    case (Inl msg)
    with t show ?thesis
      by (simp add: processMessage_def Let_def addToHistory_string[OF function_role(2)])
  qed
qed

lemma generateResponse_returns:
  assumes "4 \<le> maxHistoryLength cm"
  shows "\<exists>r cm' w'. generateResponse (Suc n) p orc cm w userInput options = Some (Inr r, cm', w')
           \<and> messageHistory cm' = messageHistory cm"
  using processMessage_returns[OF assms, of n p orc w userInput options]
  by (auto simp: generateResponse_def)

subsection \<open>Where the registry keeps names and keys equal\<close>

text \<open>
  \<open>registerBuiltInFunctions\<close> and \<open>unregisterFunction\<close> keep every record under its
  schema's name, and so does \<open>registerFunction\<close> when it is called with that name.
\<close>

lemma list_all_map_set:
  "list_all P m \<Longrightarrow> P (k, v) \<Longrightarrow> list_all P (map_set k v m)"
  by (induction m) auto

lemma registerFunction_namesMatch:
  assumes "registerFunction reg n schema h = Inr reg'"
    and "namesMatch reg" and "schema_name schema = Some n"
  shows "namesMatch reg'"
  using assms
  by (auto simp: registerFunction_def namesMatch_def intro!: list_all_map_set
        split: if_splits handler_val.splits)

lemma registerBuiltInFunctions_namesMatch:
  "registerBuiltInFunctions reg ws handlers = (err, reg') \<Longrightarrow> namesMatch reg \<Longrightarrow> namesMatch reg'"
proof (induction ws arbitrary: reg)
  case Nil
  then show ?case by simp
next
  case (Cons a ws)
  then show ?case
    by (auto simp: Let_def split: option.splits sum.splits dest: registerFunction_namesMatch)
qed

lemma unregisterFunction_namesMatch:
  "namesMatch reg \<Longrightarrow> namesMatch (snd (unregisterFunction reg n))"
  by (simp add: unregisterFunction_def namesMatch_def map_delete_def list_all_iff)

end
